theory Spec2Isabelle
  imports Complex_Main "HOL-Library.Sublist" "HOL-Library.Multiset"
begin

section \<open>JavaScript strings\<close>

text \<open>
  A JavaScript string is a sequence of UTF-16 code units; \<open>length\<close>, \<open>indexOf\<close>,
  \<open>includes\<close> and \<open>substring\<close> all count code units. A code unit is modelled as a
  natural number, and \<open>js\<close> turns an ASCII literal into its code units. The letters with
  accents that the keyword tables use are single code units of the Latin-1 range.
\<close>

type_synonym jsstring = "nat list"

definition js :: "string \<Rightarrow> jsstring" where
  "js s = map of_char s"

text \<open>\<open>s.indexOf(p)\<close>: the first position where \<open>p\<close> occurs, or \<open>-1\<close>.\<close>

fun indexOf :: "jsstring \<Rightarrow> jsstring \<Rightarrow> int" where
  "indexOf [] p = (if p = [] then 0 else - 1)"
| "indexOf (c # cs) p =
     (if prefix p (c # cs) then 0
      else (let r = indexOf cs p in if r < 0 then - 1 else r + 1))"

text \<open>\<open>s.includes(p)\<close>.\<close>

fun str_includes :: "jsstring \<Rightarrow> jsstring \<Rightarrow> bool" where
  "str_includes [] p = (p = [])"
| "str_includes (c # cs) p = (prefix p (c # cs) \<or> str_includes cs p)"

text \<open>
  \<open>String.prototype.toLowerCase\<close> belongs to the engine, not to the repository. The
  functions that call it take it as a parameter, so that what is proved for every input
  holds for the engine's own case mapping. For concrete inputs \<open>toLowerCase\<close> below is
  used: it is the engine's mapping on the code units up to 255 (A-Z, and the Latin-1
  capitals 192-222 except the multiplication sign 215) and leaves every other code unit
  as it is.
\<close>

definition lowerUnit :: "nat \<Rightarrow> nat" where
  "lowerUnit c =
     (if 65 \<le> c \<and> c \<le> 90 then c + 32
      else if 192 \<le> c \<and> c \<le> 222 \<and> c \<noteq> 215 then c + 32
      else c)"

definition toLowerCase :: "jsstring \<Rightarrow> jsstring" where
  "toLowerCase s = map lowerUnit s"

section \<open>Classifying the reply to an offer\<close>

text \<open>
  \<open>analyzeUpsellResponse\<close> of the sales funnel service (\<open>analyzeOfferResponse\<close> in
  the specification). Its parameter is documented as a
  string; the guard \<open>!userMessage\<close> also covers \<open>null\<close>, \<open>undefined\<close> and the empty
  string. The confidence is a JavaScript double; it is modelled as an exact real number
  (the values the function computes are 0, 0.5, 0.55, 0.6, 0.65 and
  \<open>min (0.3 + n * 0.2) 0.95\<close> for a count \<open>n\<close> of at most 16).
\<close>

datatype jsarg = Null | Undefined | Str jsstring

record analysis =
  accepted :: bool
  confidence :: real

definition positiveIndicators :: "jsstring list" where
  "positiveIndicators =
     [js ''sim'', js ''quero'', js ''aceito'', js ''concordo'', js ''interessante'',
      js ''gostei'', js ''vamos'', 243 # js ''timo'', js ''excelente'', js ''perfeito'',
      js ''bom'', js ''legal'', js ''parece bom'', js ''me interessa'', js ''bacana'',
      js ''gostaria'']"

text \<open>The word for \<open>no\<close>: n, a with a tilde (the code unit 227), o.\<close>

definition nao :: jsstring where
  "nao = js ''n'' @ [227] @ js ''o''"

definition negativeIndicators :: "jsstring list" where
  "negativeIndicators =
     [nao, js ''agora '' @ nao, js ''talvez depois'', js ''muito caro'', js ''caro'',
      js ''sem condi'' @ [231, 245] @ js ''es'', js ''preciso pensar'',
      nao @ js '' tenho interesse'', nao @ js '' quero'', js ''recuso'',
      nao @ js '' posso'', nao @ js '' consigo'', js ''deixa pra depois'',
      js ''outra hora'', js ''no momento '' @ nao]"

text \<open>The two \<open>forEach\<close> loops count the indicators that occur in the message.\<close>

definition countMatches :: "jsstring list \<Rightarrow> jsstring \<Rightarrow> nat" where
  "countMatches indicators message = length (filter (str_includes message) indicators)"

definition analyzeUpsellResponse :: "(jsstring \<Rightarrow> jsstring) \<Rightarrow> jsarg \<Rightarrow> analysis" where
  "analyzeUpsellResponse lower userMessage =
     (case userMessage of
        Null \<Rightarrow> \<lparr>accepted = False, confidence = 0\<rparr>
      | Undefined \<Rightarrow> \<lparr>accepted = False, confidence = 0\<rparr>
      | Str text \<Rightarrow>
          if text = [] then \<lparr>accepted = False, confidence = 0\<rparr>
          else
            let message = lower text;
                positiveMatches = countMatches positiveIndicators message;
                negativeMatches = countMatches negativeIndicators message
            in
              if positiveMatches > 0 \<or> negativeMatches > 0 then
                if positiveMatches > 0 \<and> negativeMatches > 0 then
                  if indexOf message nao < indexOf message (js ''interessante'')
                  then \<lparr>accepted = False, confidence = 0.6\<rparr>
                  else \<lparr>accepted = positiveMatches > negativeMatches, confidence = 0.6\<rparr>
                else if positiveMatches > 0 then
                  \<lparr>accepted = True,
                   confidence = min (0.3 + real positiveMatches * 0.2) 0.95\<rparr>
                else
                  \<lparr>accepted = False,
                   confidence = min (0.3 + real negativeMatches * 0.2) 0.95\<rparr>
              else if str_includes message (js ''?'') then
                \<lparr>accepted = False, confidence = 0.65\<rparr>
              else if length message < 10 then
                \<lparr>accepted = False, confidence = 0.5\<rparr>
              else
                \<lparr>accepted = False, confidence = 0.55\<rparr>)"

section \<open>Special commands in the model's reply\<close>

text \<open>
  \<open>_extractSpecialCommands\<close> and \<open>_removeSpecialCommands\<close> of the AI handler
  (\<open>extractDirectives\<close> and \<open>stripDirectives\<close> in the specification) share the
  pattern \<^verbatim>\<open>/!(prova_social|checkout|etapa|suporte)(?::\s*([a-z0-9_-]+))?/gi\<close>.

  With the flag \<open>i\<close> (and without \<open>u\<close>) a code unit matches a letter of the pattern when
  both have the same upper case, and a code unit of 128 or more never matches an ASCII
  letter; so the names and the class \<open>[a-z0-9_-]\<close> match ASCII letters of either case.
  \<open>\s\<close> is the engine's white space and line terminator set.
\<close>

definition asciiUpper :: "nat \<Rightarrow> nat" where
  "asciiUpper c = (if 97 \<le> c \<and> c \<le> 122 then c - 32 else c)"

definition isIdChar :: "nat \<Rightarrow> bool" where
  "isIdChar c \<longleftrightarrow>
     (97 \<le> c \<and> c \<le> 122) \<or> (65 \<le> c \<and> c \<le> 90) \<or> (48 \<le> c \<and> c \<le> 57) \<or> c = 95 \<or> c = 45"

definition isWhitespace :: "nat \<Rightarrow> bool" where
  "isWhitespace c \<longleftrightarrow>
     (9 \<le> c \<and> c \<le> 13) \<or> c = 32 \<or> c = 160 \<or> c = 5760 \<or> (8192 \<le> c \<and> c \<le> 8202) \<or>
     c = 8232 \<or> c = 8233 \<or> c = 8239 \<or> c = 8287 \<or> c = 12288 \<or> c = 65279"

definition commandNames :: "jsstring list" where
  "commandNames = [js ''prova_social'', js ''checkout'', js ''etapa'', js ''suporte'']"

text \<open>Does the text start with the name, letters compared without case?\<close>

definition startsWithName :: "jsstring \<Rightarrow> jsstring \<Rightarrow> bool" where
  "startsWithName name s \<longleftrightarrow>
     length name \<le> length s \<and> map asciiUpper (take (length name) s) = map asciiUpper name"

record command =
  cmd_type :: jsstring
  cmd_id :: jsstring
  fullCommand :: jsstring

text \<open>
  One match of the pattern at the start of \<open>s\<close>. The alternatives are tried in order
  and none is a prefix of another. After the name, the optional group takes a colon, the
  longest run of white space and the longest run of identifier characters; when that run
  is empty no shorter run of white space helps (the next unit is white space or no
  identifier character), the group matches nothing and the match ends after the name.
  \<open>match[1].toLowerCase()\<close> is applied to ASCII letters only; \<open>match[2] || ""\<close> is the
  identifier or the empty string.
\<close>

definition matchCommand :: "jsstring \<Rightarrow> command option" where
  "matchCommand s =
     (case s of
        [] \<Rightarrow> None
      | c # rest \<Rightarrow>
          if c \<noteq> 33 then None
          else
            (case find (\<lambda>name. startsWithName name rest) commandNames of
               None \<Rightarrow> None
             | Some name \<Rightarrow>
                 let n = length name;
                     after = drop n rest;
                     plain = \<lparr>cmd_type = toLowerCase (take n rest), cmd_id = [],
                              fullCommand = take (1 + n) s\<rparr>
                 in
                   (case after of
                      [] \<Rightarrow> Some plain
                    | d # r \<Rightarrow>
                        if d \<noteq> 58 then Some plain
                        else
                          let ws = takeWhile isWhitespace r;
                              ident = takeWhile isIdChar (dropWhile isWhitespace r)
                          in
                            if ident = [] then Some plain
                            else Some \<lparr>cmd_type = toLowerCase (take n rest), cmd_id = ident,
                                       fullCommand =
                                         take (1 + n + 1 + length ws + length ident) s\<rparr>)))"

text \<open>
  The \<open>while\<close> loop over \<open>commandPattern.exec(content)\<close>: a global pattern goes on after
  the end of the last match, and one code unit further where nothing matched.
\<close>

fun extractFrom :: "jsstring \<Rightarrow> command list" where
  "extractFrom [] = []"
| "extractFrom (c # cs) =
     (case matchCommand (c # cs) of
        None \<Rightarrow> extractFrom cs
      | Some m \<Rightarrow> m # extractFrom (drop (length (fullCommand m) - 1) cs))"

definition extractSpecialCommands :: "jsstring \<Rightarrow> command list" where
  "extractSpecialCommands content = extractFrom content"

text \<open>\<open>content.replace(pattern, "")\<close> with the same pattern.\<close>

fun removeMatches :: "jsstring \<Rightarrow> jsstring" where
  "removeMatches [] = []"
| "removeMatches (c # cs) =
     (case matchCommand (c # cs) of
        None \<Rightarrow> c # removeMatches cs
      | Some m \<Rightarrow> removeMatches (drop (length (fullCommand m) - 1) cs))"

text \<open>\<^verbatim>\<open>.replace(/\n{3,}/g, "\n\n")\<close>: a run of three or more line feeds becomes two.\<close>

function collapseNewlines :: "jsstring \<Rightarrow> jsstring" where
  "collapseNewlines [] = []"
| "collapseNewlines (c # cs) =
     (if c = 10 \<and> 2 \<le> length (takeWhile (\<lambda>d. d = 10) cs)
      then 10 # 10 # collapseNewlines (dropWhile (\<lambda>d. d = 10) cs)
      else c # collapseNewlines cs)"
  by pat_completeness auto
termination
  by (relation "measure length") (auto simp: less_Suc_eq_le length_dropWhile_le)

text \<open>\<open>.trim()\<close>.\<close>

definition trim :: "jsstring \<Rightarrow> jsstring" where
  "trim s = rev (dropWhile isWhitespace (rev (dropWhile isWhitespace s)))"

definition removeSpecialCommands :: "jsstring \<Rightarrow> jsstring" where
  "removeSpecialCommands content = trim (collapseNewlines (removeMatches content))"

text \<open>
  The syntax of one directive as the code reads it, written as a predicate on a whole
  string: \<open>!name\<close>, or \<open>!name:\<close> followed by any white space and a non-empty identifier.
\<close>

definition directiveSyntax :: "jsstring \<Rightarrow> bool" where
  "directiveSyntax s \<longleftrightarrow>
     (\<exists>name \<in> set commandNames. \<exists>nm ws ident.
        map asciiUpper nm = map asciiUpper name \<and>
        (s = 33 # nm \<or>
         (s = 33 # nm @ 58 # ws @ ident \<and> list_all isWhitespace ws \<and>
          ident \<noteq> [] \<and> list_all isIdChar ident)))"

section \<open>Splitting an outgoing message\<close>

text \<open>
  \<open>_splitMessage\<close> and \<open>_splitTextChunks\<close> of the chat handler. The two settings
  \<open>maxCharsPerMessage\<close> (an integer that the configuration keeps between 100 and 4000)
  and \<open>splitInParagraphs\<close> are parameters.

  \<open>s.lastIndexOf(p, pos)\<close>: the last position, not after \<open>pos\<close>, where \<open>p\<close> occurs, or
  \<open>-1\<close>.
\<close>

fun lastIndexFrom :: "jsstring \<Rightarrow> jsstring \<Rightarrow> nat \<Rightarrow> int" where
  "lastIndexFrom s p 0 = (if prefix p s then 0 else - 1)"
| "lastIndexFrom s p (Suc k) =
     (if prefix p (drop (Suc k) s) then int (Suc k) else lastIndexFrom s p k)"

definition lastIndexOf :: "jsstring \<Rightarrow> jsstring \<Rightarrow> int \<Rightarrow> int" where
  "lastIndexOf s p pos =
     (if length s < length p then - 1
      else lastIndexFrom s p (min (nat pos) (length s - length p)))"

text \<open>\<open>s.substring(a, b)\<close> for \<open>0 \<le> a \<le> b\<close>.\<close>

definition substring :: "jsstring \<Rightarrow> nat \<Rightarrow> nat \<Rightarrow> jsstring" where
  "substring s a b = take (b - a) (drop a s)"

text \<open>
  The \<open>while\<close> loop of \<open>_splitTextChunks\<close>, with \<open>start\<close> and \<open>chunks\<close> as its state.
  \<open>maxLength / 2\<close> is a division of numbers, so \<open>b < start + maxLength / 2\<close> is
  \<open>2 * b < 2 * start + maxLength\<close>. The loop does not advance when \<open>maxLength\<close> is 0; it
  is a partial function, and \<open>None\<close> stands for a run that does not return.
\<close>

partial_function (option) splitTextLoop ::
  "jsstring \<Rightarrow> nat \<Rightarrow> nat \<Rightarrow> jsstring list \<Rightarrow> jsstring list option" where
  "splitTextLoop text maxLength start chunks =
     (if start < length text then
        (let e = start + maxLength in
           if length text \<le> e then Some (chunks @ [trim (drop start text)])
           else
             (let half = 2 * int start + int maxLength;
                  b1 = lastIndexOf text (js ''. '') (int e);
                  b2 = (if 2 * b1 < half then lastIndexOf text (js ''? '') (int e) else b1);
                  b3 = (if 2 * b2 < half then lastIndexOf text (js ''! '') (int e) else b2);
                  b4 = (if 2 * b3 < half then lastIndexOf text [10] (int e) else b3);
                  b5 = (if 2 * b4 < half then lastIndexOf text (js '' '') (int e) else b4);
                  sentenceBoundary =
                    (if b5 < int start then int start + int maxLength - 1 else b5)
              in splitTextLoop text maxLength (nat (sentenceBoundary + 1))
                   (chunks @ [trim (substring text start (nat (sentenceBoundary + 1)))])))
      else Some chunks)"

declare splitTextLoop.simps [code]

definition splitTextChunks :: "jsstring \<Rightarrow> nat \<Rightarrow> jsstring list option" where
  "splitTextChunks text maxLength = splitTextLoop text maxLength 0 []"

text \<open>
  \<^verbatim>\<open>content.split(/\n\s*\n/)\<close>. A match starts at a line feed and ends at the last line
  feed of the white space that follows it; \<open>paragraphBreak\<close> gives its length.
\<close>

definition paragraphBreak :: "jsstring \<Rightarrow> nat option" where
  "paragraphBreak s =
     (case s of
        [] \<Rightarrow> None
      | c # rest \<Rightarrow>
          if c \<noteq> 10 then None
          else
            let w = takeWhile isWhitespace rest
            in if 10 \<in> set w
               then Some (1 + (length w - length (takeWhile (\<lambda>d. d \<noteq> 10) (rev w))))
               else None)"

fun splitParagraphs :: "jsstring \<Rightarrow> jsstring \<Rightarrow> jsstring list" where
  "splitParagraphs [] piece = [piece]"
| "splitParagraphs (c # cs) piece =
     (case paragraphBreak (c # cs) of
        None \<Rightarrow> splitParagraphs cs (piece @ [c])
      | Some n \<Rightarrow> piece # splitParagraphs (drop (n - 1) cs) [])"

text \<open>
  The \<open>for\<close> loop over the paragraphs, with \<open>messages\<close> and \<open>currentMessage\<close> as its
  state; a non-empty string is what \<open>if (currentMessage)\<close> tests.
\<close>

fun paragraphLoop ::
  "nat \<Rightarrow> jsstring list \<Rightarrow> jsstring list \<Rightarrow> jsstring \<Rightarrow> (jsstring list \<times> jsstring) option" where
  "paragraphLoop maxLength [] messages currentMessage = Some (messages, currentMessage)"
| "paragraphLoop maxLength (paragraph # paragraphs) messages currentMessage =
     (if length currentMessage + length paragraph + 2 > maxLength then
        (let messages1 = (if currentMessage \<noteq> [] then messages @ [trim currentMessage]
                          else messages)
         in if length paragraph > maxLength then
              (case splitTextChunks paragraph maxLength of
                 None \<Rightarrow> None
               | Some paragraphChunks \<Rightarrow>
                   paragraphLoop maxLength paragraphs (messages1 @ paragraphChunks) [])
            else paragraphLoop maxLength paragraphs messages1 paragraph)
      else if currentMessage \<noteq> [] then
        paragraphLoop maxLength paragraphs messages (currentMessage @ [10, 10] @ paragraph)
      else paragraphLoop maxLength paragraphs messages paragraph)"

definition splitMessage :: "nat \<Rightarrow> bool \<Rightarrow> jsstring \<Rightarrow> jsstring list option" where
  "splitMessage maxLength shouldSplitParagraphs content =
     (if length content \<le> maxLength then Some [content]
      else if shouldSplitParagraphs then
        (case paragraphLoop maxLength (splitParagraphs content []) [] [] of
           None \<Rightarrow> None
         | Some (messages, currentMessage) \<Rightarrow>
             Some (if currentMessage \<noteq> [] then messages @ [trim currentMessage] else messages))
      else splitTextChunks content maxLength)"

section \<open>The memory manager\<close>

text \<open>
  The memory manager keeps the entries of all conversations in a database table (behind
  the Prisma client, an external collaborator) and a cache of entries per conversation.
  The table is modelled as the list of its rows, with the fields the memory manager
  uses; a database call does not fail in the model. A stored value is serialised on
  writing and parsed back on reading, which returns \<open>null\<close>, objects and every string that
  is not itself a JSON text (no stage or plan id is) as they were; the model stores the
  value. \<open>VDate t\<close> is the ISO string of the instant \<open>t\<close> (milliseconds), and
  \<open>VNull\<close> also stands for \<open>undefined\<close> (both are falsy, and neither is a key of a
  table below).
\<close>

datatype memval =
    VNull
  | VStr jsstring
  | VNum real
  | VDate nat
  | VObj "(string \<times> memval) list"

definition truthy :: "memval \<Rightarrow> bool" where
  "truthy v =
     (case v of
        VNull \<Rightarrow> False
      | VStr s \<Rightarrow> s \<noteq> []
      | VNum x \<Rightarrow> x \<noteq> 0
      | VDate t \<Rightarrow> True
      | VObj fs \<Rightarrow> True)"

text \<open>Reading a property of a value that is not \<open>null\<close>.\<close>

definition getProp :: "memval \<Rightarrow> string \<Rightarrow> memval" where
  "getProp v name =
     (case v of
        VObj fs \<Rightarrow> (case map_of fs name of None \<Rightarrow> VNull | Some x \<Rightarrow> x)
      | _ \<Rightarrow> VNull)"

record entry =
  conversationId :: jsstring
  key :: jsstring
  type :: jsstring
  val :: memval
  updatedAt :: nat

record memory =
  db :: "entry list"
  cache :: "jsstring \<rightharpoonup> entry list"

datatype error =
    MissingRequiredFields
  | InvalidFunnelStage jsstring
  | FailedToSaveMemoryEntry error
  | FailedToUpdateFunnelStage error
  | FailedToRecordPurchase error

text \<open>\<open>findIndex\<close> followed by \<open>splice(index, 1)\<close>.\<close>

fun removeFirst :: "('a \<Rightarrow> bool) \<Rightarrow> 'a list \<Rightarrow> 'a list" where
  "removeFirst P [] = []"
| "removeFirst P (x # xs) = (if P x then xs else x # removeFirst P xs)"

text \<open>\<open>prisma.memoryEntry.update\<close> of the row that \<open>findFirst\<close> returned.\<close>

fun updateFirst :: "('a \<Rightarrow> bool) \<Rightarrow> 'a \<Rightarrow> 'a list \<Rightarrow> 'a list" where
  "updateFirst P y [] = []"
| "updateFirst P y (x # xs) = (if P x then y # xs else x # updateFirst P y xs)"

definition updateMemoryEntryCache :: "memory \<Rightarrow> jsstring \<Rightarrow> entry \<Rightarrow> memory" where
  "updateMemoryEntryCache mem phoneNumber e =
     (let entries = (case cache mem phoneNumber of None \<Rightarrow> [] | Some es \<Rightarrow> es)
      in mem\<lparr>cache := (cache mem)(phoneNumber \<mapsto>
                 removeFirst (\<lambda>x. key x = key e \<and> type x = type e) entries @ [e])\<rparr>)"

text \<open>
  \<open>saveMemoryEntry(phoneNumber, key, value, type)\<close> at the time \<open>now\<close>; \<open>Inl\<close> is the
  error it throws, and then nothing has been written.
\<close>

definition saveMemoryEntry ::
  "memory \<Rightarrow> nat \<Rightarrow> jsstring \<Rightarrow> jsstring \<Rightarrow> memval \<Rightarrow> jsstring \<Rightarrow> error + memory" where
  "saveMemoryEntry mem now phoneNumber k v t =
     (if phoneNumber = [] \<or> k = [] then Inl (FailedToSaveMemoryEntry MissingRequiredFields)
      else
        let hit = (\<lambda>e. conversationId e = phoneNumber \<and> key e = k \<and> type e = t)
        in (case find hit (db mem) of
              Some existingEntry \<Rightarrow>
                let e = existingEntry\<lparr>val := v, updatedAt := now\<rparr>
                in Inr (updateMemoryEntryCache
                          (mem\<lparr>db := updateFirst hit e (db mem)\<rparr>) phoneNumber e)
            | None \<Rightarrow>
                let e = \<lparr>conversationId = phoneNumber, key = k, type = t, val = v,
                         updatedAt = now\<rparr>
                in Inr (updateMemoryEntryCache (mem\<lparr>db := db mem @ [e]\<rparr>) phoneNumber e)))"

text \<open>
  The first entry of a list sorted by \<open>updatedAt\<close>, latest first; the sort is stable, so
  among the latest entries the earliest of the list is taken.
\<close>

fun latestOf :: "entry list \<Rightarrow> entry option" where
  "latestOf [] = None"
| "latestOf (e # es) =
     (case latestOf es of
        None \<Rightarrow> Some e
      | Some f \<Rightarrow> if updatedAt e < updatedAt f then Some f else Some e)"

text \<open>
  \<open>getLatestMemoryEntry(phoneNumber, type)\<close>: the latest cached entry of the type, or
  else the latest row of the type, which is then cached. The second argument is compared
  with the field \<open>type\<close> of the entries and with nothing else.
\<close>

definition getLatestMemoryEntry ::
  "memory \<Rightarrow> jsstring \<Rightarrow> jsstring \<Rightarrow> entry option \<times> memory" where
  "getLatestMemoryEntry mem phoneNumber t =
     (let cached =
            (case cache mem phoneNumber of
               None \<Rightarrow> None
             | Some cachedEntries \<Rightarrow> latestOf (filter (\<lambda>e. type e = t) cachedEntries))
      in (case cached of
            Some e \<Rightarrow> (Some e, mem)
          | None \<Rightarrow>
              (case latestOf (filter (\<lambda>e. conversationId e = phoneNumber \<and> type e = t) (db mem)) of
                 Some e \<Rightarrow> (Some e, updateMemoryEntryCache mem phoneNumber e)
               | None \<Rightarrow> (None, mem))))"

text \<open>\<open>deleteMemoryEntry(phoneNumber, key, type)\<close>.\<close>

definition deleteMemoryEntry :: "memory \<Rightarrow> jsstring \<Rightarrow> jsstring \<Rightarrow> jsstring \<Rightarrow> memory" where
  "deleteMemoryEntry mem phoneNumber k t =
     mem\<lparr>db := filter (\<lambda>e. \<not> (conversationId e = phoneNumber \<and> key e = k \<and> type e = t)) (db mem),
         cache :=
           (case cache mem phoneNumber of
              None \<Rightarrow> cache mem
            | Some cachedEntries \<Rightarrow>
                (cache mem)(phoneNumber \<mapsto>
                   filter (\<lambda>e. \<not> (key e = k \<and> type e = t)) cachedEntries))\<rparr>"

definition emptyMemory :: memory where
  "emptyMemory = \<lparr>db = [], cache = Map.empty\<rparr>"

section \<open>The sales funnel service\<close>

text \<open>
  The stages, the offers and the operations \<open>updateFunnelStage\<close>, \<open>recordPurchase\<close>,
  \<open>checkUpsellOpportunity\<close>, \<open>getDownsellForRejectedUpsell\<close> and
  \<open>determineCurrentStage\<close> (\<open>updateStage\<close> and \<open>determineStage\<close> in the
  specification).
\<close>

definition GREETING :: jsstring where "GREETING = js ''greeting''"
definition QUALIFICATION :: jsstring where "QUALIFICATION = js ''qualification''"
definition NEED_DISCOVERY :: jsstring where "NEED_DISCOVERY = js ''need_discovery''"
definition PAIN_POINT_EXPLORATION :: jsstring where
  "PAIN_POINT_EXPLORATION = js ''pain_point_exploration''"
definition SOLUTION_PRESENTATION :: jsstring where
  "SOLUTION_PRESENTATION = js ''solution_presentation''"
definition PRODUCT_DEMONSTRATION :: jsstring where
  "PRODUCT_DEMONSTRATION = js ''product_demonstration''"
definition VALUE_PROPOSITION :: jsstring where "VALUE_PROPOSITION = js ''value_proposition''"
definition PROOF_AND_CREDIBILITY :: jsstring where
  "PROOF_AND_CREDIBILITY = js ''proof_and_credibility''"
definition OBJECTION_HANDLING :: jsstring where "OBJECTION_HANDLING = js ''objection_handling''"
definition PRICE_DISCUSSION :: jsstring where "PRICE_DISCUSSION = js ''price_discussion''"
definition CLOSING :: jsstring where "CLOSING = js ''closing''"
definition CHECKOUT :: jsstring where "CHECKOUT = js ''checkout''"
definition POST_PURCHASE_FOLLOWUP :: jsstring where
  "POST_PURCHASE_FOLLOWUP = js ''post_purchase_followup''"
definition UPSELL :: jsstring where "UPSELL = js ''upsell''"
definition DOWNSELL :: jsstring where "DOWNSELL = js ''downsell''"
definition CROSS_SELL :: jsstring where "CROSS_SELL = js ''cross_sell''"
definition REACTIVATION :: jsstring where "REACTIVATION = js ''reactivation''"
definition FEEDBACK :: jsstring where "FEEDBACK = js ''feedback''"

text \<open>\<open>Object.values(FUNNEL_STAGES)\<close>.\<close>

definition FUNNEL_STAGES :: "jsstring list" where
  "FUNNEL_STAGES =
     [GREETING, QUALIFICATION, NEED_DISCOVERY, PAIN_POINT_EXPLORATION,
      SOLUTION_PRESENTATION, PRODUCT_DEMONSTRATION, VALUE_PROPOSITION, PROOF_AND_CREDIBILITY,
      OBJECTION_HANDLING, PRICE_DISCUSSION, CLOSING, CHECKOUT,
      POST_PURCHASE_FOLLOWUP, UPSELL, DOWNSELL, CROSS_SELL,
      REACTIVATION, FEEDBACK]"

text \<open>
  The detection keywords of \<open>OBJECTION_STRATEGIES\<close>, in the order of
  \<open>Object.values(...).flatMap(obj => obj.detection)\<close>.
\<close>

definition objectionSignals :: "jsstring list" where
  "objectionSignals =
     [js ''caro'', js ''pre'' @ [231] @ js ''o'', js ''custo'', js ''valor'', js ''barato'',
      js ''desconto'', js ''promo'' @ [231, 227] @ js ''o'', js ''investimento'',
      js ''or'' @ [231] @ js ''amento'',
      js ''tempo'', js ''pensar'', js ''depois'', js ''consultar'', js ''decidir'',
      js ''amanh'' @ [227], js ''semana'', js ''reflex'' @ [227] @ js ''o'', js ''analisar'',
      js ''consultar'', js ''chefe'', js ''s'' @ [243] @ js ''cio'', js ''esposa'', js ''marido'',
      js ''equipe'', js ''decidir junto'', js ''gerente'', js ''superior'', js ''diretor'',
      js ''concorrente'', js ''outra empresa'', js ''outro sistema'', js ''alternativa'',
      js ''comparando'', js ''diferente'', js ''similar'',
      js ''servi'' @ [231] @ js ''o parecido'',
      nao @ js '' preciso'', js ''desnecess'' @ [225] @ js ''rio'', js ''resolvido'',
      js ''satisfeito'', nao @ js '' tenho problema'', js ''sem interesse'',
      nao @ js '' '' @ [233] @ js '' prioridade'',
      js ''complicado'', js ''dif'' @ [237] @ js ''cil'', js ''t'' @ [233] @ js ''cnico'',
      js ''complexo'', js ''implementa'' @ [231, 227] @ js ''o'',
      js ''integra'' @ [231, 227] @ js ''o'', js ''instalar'', js ''configurar'',
      js ''aprender'']"

text \<open>
  The offers. The two prose fields \<open>pitch\<close> and \<open>valueProposition\<close> are left out: only
  \<open>buildStageInstructions\<close> reads them.
\<close>

record upsellOpportunity =
  targetPlanId :: jsstring
  title :: jsstring
  timing :: jsstring
  discount :: real
  limitedTime :: jsstring

record downsellOpportunity =
  d_targetPlanId :: jsstring
  d_title :: jsstring
  d_discount :: real
  d_limitedTime :: jsstring

definition apos :: jsstring where
  "apos = js ''ap'' @ [243] @ js ''s''"

definition UPSELL_OPPORTUNITIES :: "(jsstring \<times> upsellOpportunity list) list" where
  "UPSELL_OPPORTUNITIES =
     [(js ''basic_plan'',
       [\<lparr>targetPlanId = js ''pro_plan'', title = js ''Upgrade para Plano Pro'',
         timing = apos @ js ''_7_dias'', discount = 0.15, limitedTime = js ''72h''\<rparr>]),
      (js ''pro_plan'',
       [\<lparr>targetPlanId = js ''enterprise_plan'', title = js ''Upgrade para Plano Enterprise'',
         timing = apos @ js ''_30_dias'', discount = 0.1, limitedTime = js ''7d''\<rparr>,
        \<lparr>targetPlanId = js ''addon_training'', title = js ''Treinamento Personalizado'',
         timing = apos @ js ''_3_dias'', discount = 0.2, limitedTime = js ''48h''\<rparr>])]"

definition DOWNSELL_ALTERNATIVES :: "(jsstring \<times> downsellOpportunity) list" where
  "DOWNSELL_ALTERNATIVES =
     [(js ''pro_plan'',
       \<lparr>d_targetPlanId = js ''basic_plus_plan'',
        d_title = js ''Plano B'' @ [225] @ js ''sico Plus'',
        d_discount = 0.25, d_limitedTime = js ''24h''\<rparr>),
      (js ''enterprise_plan'',
       \<lparr>d_targetPlanId = js ''pro_plus_plan'', d_title = js ''Plano Pro Plus'',
        d_discount = 0.15, d_limitedTime = js ''48h''\<rparr>),
      (js ''addon_training'',
       \<lparr>d_targetPlanId = js ''addon_quickstart'', d_title = js ''Quickstart Guide Premium'',
        d_discount = 0.3, d_limitedTime = js ''24h''\<rparr>)]"

text \<open>An offer as the object that is saved in the memory.\<close>

definition upsellValue :: "upsellOpportunity \<Rightarrow> memval" where
  "upsellValue opp =
     VObj [(''targetPlanId'', VStr (targetPlanId opp)), (''title'', VStr (title opp)),
           (''timing'', VStr (timing opp)), (''discount'', VNum (discount opp)),
           (''limitedTime'', VStr (limitedTime opp))]"

definition downsellValue :: "downsellOpportunity \<Rightarrow> memval" where
  "downsellValue opp =
     VObj [(''targetPlanId'', VStr (d_targetPlanId opp)), (''title'', VStr (d_title opp)),
           (''discount'', VNum (d_discount opp)), (''limitedTime'', VStr (d_limitedTime opp))]"

record upsellTiming =
  default_days :: int
  premium_threshold :: int
  quick_wins :: int

record options =
  defaultStage :: jsstring
  stageAdvancementThreshold :: real
  enableUpsellDownsell :: bool
  upsellTiming :: upsellTiming

text \<open>The options of the exported service, \<open>new SalesFunnelService()\<close>.\<close>

definition defaultOptions :: options where
  "defaultOptions =
     \<lparr>defaultStage = GREETING, stageAdvancementThreshold = 0.7, enableUpsellDownsell = True,
      upsellTiming = \<lparr>default_days = 7, premium_threshold = 30, quick_wins = 3\<rparr>\<rparr>"

text \<open>
  \<open>parseInt(opportunity.timing.match(/\d+/)?.[0] || default)\<close>: the number written by the
  first run of digits, or the default.
\<close>

definition isDigit :: "nat \<Rightarrow> bool" where
  "isDigit c \<longleftrightarrow> 48 \<le> c \<and> c \<le> 57"

definition parseDigits :: "jsstring \<Rightarrow> int" where
  "parseDigits ds = foldl (\<lambda>n c. 10 * n + (int c - 48)) 0 ds"

definition timingDays :: "upsellTiming \<Rightarrow> jsstring \<Rightarrow> int" where
  "timingDays t s =
     (if s = apos @ js ''_3_dias'' then quick_wins t
      else if s = apos @ js ''_7_dias'' then default_days t
      else if s = apos @ js ''_30_dias'' then premium_threshold t
      else
        (let ds = takeWhile isDigit (dropWhile (\<lambda>c. \<not> isDigit c) s)
         in if ds = [] then default_days t else parseDigits ds))"

text \<open>The \<open>for\<close> loop of \<open>checkUpsellOpportunity\<close>.\<close>

fun firstInWindow :: "upsellTiming \<Rightarrow> int \<Rightarrow> upsellOpportunity list \<Rightarrow> upsellOpportunity option" where
  "firstInWindow t daysSincePurchase [] = None"
| "firstInWindow t daysSincePurchase (opportunity # opportunities) =
     (if daysSincePurchase \<ge> timingDays t (timing opportunity) - 1 \<and>
         daysSincePurchase \<le> timingDays t (timing opportunity) + 3
      then Some opportunity
      else firstInWindow t daysSincePurchase opportunities)"

definition checkUpsellOpportunity ::
  "options \<Rightarrow> jsstring \<Rightarrow> int \<Rightarrow> upsellOpportunity option" where
  "checkUpsellOpportunity opts productId daysSincePurchase =
     (if \<not> enableUpsellDownsell opts then None
      else
        (case map_of UPSELL_OPPORTUNITIES productId of
           None \<Rightarrow> None
         | Some opportunities \<Rightarrow>
             firstInWindow (upsellTiming opts) daysSincePurchase opportunities))"

text \<open>
  \<open>getDownsellForRejectedUpsell\<close>; its argument is whatever the saved offer has as
  \<open>targetPlanId\<close>, and only a string is a key of the table.
\<close>

definition getDownsellForRejectedUpsell :: "options \<Rightarrow> memval \<Rightarrow> downsellOpportunity option" where
  "getDownsellForRejectedUpsell opts upsellPlanId =
     (if \<not> enableUpsellDownsell opts then None
      else (case upsellPlanId of
              VStr planId \<Rightarrow> map_of DOWNSELL_ALTERNATIVES planId
            | _ \<Rightarrow> None))"

text \<open>
  \<open>new Date(v)\<close>: the instant of a date string. The other strings and the objects that
  the code stores give an invalid date (\<open>None\<close>), and a comparison with the number of
  days or hours of an invalid date is false; no number is stored where a date is read,
  and the model gives it no date either.
\<close>

definition toDate :: "memval \<Rightarrow> nat option" where
  "toDate v = (case v of VDate t \<Rightarrow> Some t | _ \<Rightarrow> None)"

definition ceilDiv :: "int \<Rightarrow> int \<Rightarrow> int" where
  "ceilDiv a b = - ((- a) div b)"

definition calculateDaysBetween :: "nat \<Rightarrow> nat \<Rightarrow> int" where
  "calculateDaysBetween date1 date2 = ceilDiv \<bar>int date2 - int date1\<bar> (1000 * 60 * 60 * 24)"

definition calculateHoursBetween :: "nat \<Rightarrow> nat \<Rightarrow> int" where
  "calculateHoursBetween date1 date2 = ceilDiv \<bar>int date2 - int date1\<bar> (1000 * 60 * 60)"

text \<open>
  The calls to the clock within one operation (\<open>new Date()\<close>, \<open>Date.now()\<close>) all read
  the time \<open>now\<close>, in milliseconds. \<open>decimal\<close> writes a number as \<open>Date.now()\<close> is
  written into a key.
\<close>

fun decimal :: "nat \<Rightarrow> jsstring" where
  "decimal n = (if n < 10 then [48 + n] else decimal (n div 10) @ [48 + n mod 10])"

text \<open>
  \<open>updateFunnelStage\<close>, lines 525 to 566: the upsell that is left for another stage is
  recorded as rejected, and a downsell replaces the new stage. The result is the new
  stage to apply, or the error thrown, and the memory at that point.
\<close>

definition rejectActiveUpsell ::
  "options \<Rightarrow> memory \<Rightarrow> nat \<Rightarrow> jsstring \<Rightarrow> memval \<Rightarrow> jsstring \<Rightarrow> (error + jsstring) \<times> memory" where
  "rejectActiveUpsell opts mem now phoneNumber currentStage newStage =
     (if currentStage = VStr UPSELL \<and> newStage \<noteq> UPSELL then
        (let (activeUpsellMem, mem1) = getLatestMemoryEntry mem phoneNumber (js ''active_upsell'')
         in (case activeUpsellMem of
               None \<Rightarrow> (Inr newStage, mem1)
             | Some active \<Rightarrow>
                 if \<not> truthy (val active) then (Inr newStage, mem1)
                 else
                   (case saveMemoryEntry mem1 now phoneNumber (js ''rejected_upsell'')
                           (VObj [(''target_plan_id'', getProp (val active) ''targetPlanId''),
                                  (''rejection_time'', VDate now)])
                           (js ''sales_opportunity'') of
                      Inl e \<Rightarrow> (Inl e, mem1)
                    | Inr mem2 \<Rightarrow>
                        (case getDownsellForRejectedUpsell opts
                                (getProp (val active) ''targetPlanId'') of
                           None \<Rightarrow> (Inr newStage, mem2)
                         | Some downsellOpportunity \<Rightarrow>
                             (case saveMemoryEntry mem2 now phoneNumber (js ''active_downsell'')
                                     (downsellValue downsellOpportunity)
                                     (js ''sales_opportunity'') of
                                Inl e \<Rightarrow> (Inl e, mem2)
                              | Inr mem3 \<Rightarrow> (Inr DOWNSELL, mem3))))))
      else (Inr newStage, mem))"

text \<open>
  \<open>updateFunnelStage(phoneNumber, newStage)\<close>: the error thrown, if any, and the memory
  afterwards.
\<close>

definition updateFunnelStage ::
  "options \<Rightarrow> memory \<Rightarrow> nat \<Rightarrow> jsstring \<Rightarrow> jsstring \<Rightarrow> error option \<times> memory" where
  "updateFunnelStage opts mem now phoneNumber newStage =
     (if newStage \<notin> set FUNNEL_STAGES
      then (Some (FailedToUpdateFunnelStage (InvalidFunnelStage newStage)), mem)
      else
        (let (currentStageMem, mem1) = getLatestMemoryEntry mem phoneNumber (js ''funnel_stage'');
             currentStage =
               (case currentStageMem of
                  None \<Rightarrow> VStr (defaultStage opts)
                | Some e \<Rightarrow> if truthy (val e) then val e else VStr (defaultStage opts))
         in (case rejectActiveUpsell opts mem1 now phoneNumber currentStage newStage of
               (Inl e, mem2) \<Rightarrow> (Some (FailedToUpdateFunnelStage e), mem2)
             | (Inr appliedStage, mem2) \<Rightarrow>
                 (case saveMemoryEntry mem2 now phoneNumber (js ''current_stage'')
                         (VStr appliedStage) (js ''funnel_stage'') of
                    Inl e \<Rightarrow> (Some (FailedToUpdateFunnelStage e), mem2)
                  | Inr mem3 \<Rightarrow>
                      (case saveMemoryEntry mem3 now phoneNumber
                              (js ''stage_transition_'' @ decimal now)
                              (VObj [(''from'', currentStage), (''to'', VStr appliedStage),
                                     (''timestamp'', VDate now)])
                              (js ''funnel_analytics'') of
                         Inl e \<Rightarrow> (Some (FailedToUpdateFunnelStage e), mem3)
                       | Inr mem4 \<Rightarrow> (None, mem4))))))"

text \<open>\<open>recordPurchase(phoneNumber, productId, value)\<close>.\<close>

definition recordPurchase ::
  "options \<Rightarrow> memory \<Rightarrow> nat \<Rightarrow> jsstring \<Rightarrow> jsstring \<Rightarrow> real \<Rightarrow> error option \<times> memory" where
  "recordPurchase opts mem now phoneNumber productId amount =
     (case saveMemoryEntry mem now phoneNumber (js ''purchased_product'') (VStr productId)
             (js ''purchase_history'') of
        Inl e \<Rightarrow> (Some (FailedToRecordPurchase e), mem)
      | Inr mem1 \<Rightarrow>
          (case saveMemoryEntry mem1 now phoneNumber (js ''purchase_'' @ decimal now)
                  (VObj [(''product_id'', VStr productId), (''value'', VNum amount),
                         (''purchase_date'', VDate now)])
                  (js ''purchase_history'') of
             Inl e \<Rightarrow> (Some (FailedToRecordPurchase e), mem1)
           | Inr mem2 \<Rightarrow>
               (case saveMemoryEntry mem2 now phoneNumber (js ''last_interaction'')
                       (VObj [(''type'', VStr (js ''purchase'')), (''purchase_date'', VDate now),
                              (''product_id'', VStr productId)])
                       (js ''customer_journey'') of
                  Inl e \<Rightarrow> (Some (FailedToRecordPurchase e), mem2)
                | Inr mem3 \<Rightarrow>
                    (case updateFunnelStage opts mem3 now phoneNumber POST_PURCHASE_FOLLOWUP of
                       (Some e, mem4) \<Rightarrow> (Some (FailedToRecordPurchase e), mem4)
                     | (None, mem4) \<Rightarrow> (None, mem4)))))"

text \<open>
  \<open>determineCurrentStage\<close>, lines 313 to 392: the stage of a special opportunity, if
  there is one (\<open>Inr None\<close> when the function goes on to the analysis of the messages).
\<close>

definition specialOpportunityStage ::
  "options \<Rightarrow> memory \<Rightarrow> nat \<Rightarrow> jsstring \<Rightarrow> (error + jsstring option) \<times> memory" where
  "specialOpportunityStage opts mem now phoneNumber =
     (if \<not> enableUpsellDownsell opts then (Inr None, mem)
      else
        (let (purchasedProductMem, mem1) =
               getLatestMemoryEntry mem phoneNumber (js ''purchased_product'');
             (lastInteractionMem, mem2) =
               getLatestMemoryEntry mem1 phoneNumber (js ''last_interaction'')
         in (case (purchasedProductMem, lastInteractionMem) of
               (Some purchased, Some lastInteraction) \<Rightarrow>
                 if \<not> (truthy (val purchased) \<and> truthy (val lastInteraction))
                 then (Inr None, mem2)
                 else
                   (let purchaseDate =
                          toDate (if truthy (getProp (val lastInteraction) ''purchase_date'')
                                  then getProp (val lastInteraction) ''purchase_date''
                                  else val lastInteraction);
                        upsellOpportunity =
                          (case (val purchased, purchaseDate) of
                             (VStr purchasedProductId, Some d) \<Rightarrow>
                               checkUpsellOpportunity opts purchasedProductId
                                 (calculateDaysBetween d now)
                           | _ \<Rightarrow> None)
                    in (case upsellOpportunity of
                          Some opp \<Rightarrow>
                            (case saveMemoryEntry mem2 now phoneNumber (js ''active_upsell'')
                                    (upsellValue opp) (js ''sales_opportunity'') of
                               Inl e \<Rightarrow> (Inl e, mem2)
                             | Inr mem3 \<Rightarrow> (Inr (Some UPSELL), mem3))
                        | None \<Rightarrow>
                            (let (rejectedUpsellMem, mem3) =
                                   getLatestMemoryEntry mem2 phoneNumber (js ''rejected_upsell'')
                             in (case rejectedUpsellMem of
                                   None \<Rightarrow> (Inr None, mem3)
                                 | Some rejected \<Rightarrow>
                                     if \<not> truthy (val rejected) then (Inr None, mem3)
                                     else
                                       (case toDate (getProp (val rejected) ''rejection_time'') of
                                          None \<Rightarrow> (Inr None, mem3)
                                        | Some r \<Rightarrow>
                                            if \<not> calculateHoursBetween r now < 24
                                            then (Inr None, mem3)
                                            else
                                              (case getDownsellForRejectedUpsell opts
                                                      (getProp (val rejected) ''target_plan_id'') of
                                                 None \<Rightarrow> (Inr None, mem3)
                                               | Some downsellOpportunity \<Rightarrow>
                                                   (case saveMemoryEntry mem3 now phoneNumber
                                                           (js ''active_downsell'')
                                                           (downsellValue downsellOpportunity)
                                                           (js ''sales_opportunity'') of
                                                      Inl e \<Rightarrow> (Inl e, mem3)
                                                    | Inr mem4 \<Rightarrow>
                                                        (Inr (Some DOWNSELL), mem4))))))))
             | _ \<Rightarrow> (Inr None, mem2))))"

text \<open>
  \<open>determineCurrentStage\<close>, lines 394 to 479: the stage derived from the messages of
  the chat state.
\<close>

record message =
  role :: jsstring
  content :: jsstring

definition mentions :: "jsstring list \<Rightarrow> jsstring list \<Rightarrow> bool" where
  "mentions userMessages signals \<longleftrightarrow>
     list_ex (\<lambda>msg. list_ex (\<lambda>signal. str_includes msg signal) signals) userMessages"

definition stageFromMessages :: "(jsstring \<Rightarrow> jsstring) \<Rightarrow> message list \<Rightarrow> jsstring" where
  "stageFromMessages lower messages =
     (let messageCount = length messages
      in if messageCount = 0 then GREETING
         else if messageCount < 5 then QUALIFICATION
         else if messageCount < 10 then NEED_DISCOVERY
         else
           (let recentMessages = drop (messageCount - 5) messages;
                userMessages =
                  map (\<lambda>m. lower (content m)) (filter (\<lambda>m. role m = js ''user'') recentMessages);
                pricingSignals =
                  [js ''pre'' @ [231] @ js ''o'', js ''valor'', js ''investimento'', js ''custo'',
                   js ''plano'', js ''pacote'', js ''quanto custa''];
                closingSignals =
                  [js ''comprar'', js ''adquirir'', js ''assinar'', js ''contratar'',
                   js ''fechar'', js ''pagamento''];
                demoSignals =
                  [js ''funciona'', js ''exemplo'', js ''demonstra'' @ [231, 227] @ js ''o'',
                   js ''mostrar'', js ''ver como'']
            in if mentions userMessages closingSignals then CLOSING
               else if mentions userMessages pricingSignals then PRICE_DISCUSSION
               else if mentions userMessages objectionSignals then OBJECTION_HANDLING
               else if mentions userMessages demoSignals then PRODUCT_DEMONSTRATION
               else if messageCount < 15 then PAIN_POINT_EXPLORATION
               else if messageCount < 20 then SOLUTION_PRESENTATION
               else VALUE_PROPOSITION))"

text \<open>
  \<open>determineCurrentStage(phoneNumber, chatState)\<close>: the stage returned and the memory
  afterwards. \<open>messages\<close> is \<open>chatState.messages\<close>, \<open>None\<close> when the chat state has
  none. An error thrown inside is caught, and the default stage is returned.
\<close>

definition determineCurrentStage ::
  "(jsstring \<Rightarrow> jsstring) \<Rightarrow> options \<Rightarrow> memory \<Rightarrow> nat \<Rightarrow> jsstring \<Rightarrow> message list option \<Rightarrow>
     memval \<times> memory" where
  "determineCurrentStage lower opts mem now phoneNumber messages =
     (let (stageMem, mem1) = getLatestMemoryEntry mem phoneNumber (js ''funnel_stage'');
          saved = (case stageMem of
                     None \<Rightarrow> None
                   | Some e \<Rightarrow> if truthy (val e) then Some (val e) else None)
      in (case saved of
            Some stage \<Rightarrow> (stage, mem1)
          | None \<Rightarrow>
              (case specialOpportunityStage opts mem1 now phoneNumber of
                 (Inl e, mem2) \<Rightarrow> (VStr (defaultStage opts), mem2)
               | (Inr (Some stage), mem2) \<Rightarrow> (VStr stage, mem2)
               | (Inr None, mem2) \<Rightarrow>
                   (let stage = stageFromMessages lower
                                  (case messages of None \<Rightarrow> [] | Some ms \<Rightarrow> ms)
                    in (case saveMemoryEntry mem2 now phoneNumber (js ''current_stage'')
                               (VStr stage) (js ''funnel_stage'') of
                          Inl e \<Rightarrow> (VStr (defaultStage opts), mem2)
                        | Inr mem3 \<Rightarrow> (VStr stage, mem3))))))"

section \<open>Grouping the incoming messages\<close>

text \<open>
  The chat handler runs on the event loop of the engine: a callback runs, without
  interruption, up to its next \<open>await\<close>, and a timer callback starts only when no other
  code is running. The state below is the part of the handler that the grouping uses, and
  each function is one such uninterrupted piece of the code. A pending group always has
  one live timer (\<open>_addToMessageGroup\<close> clears the old one when it sets a new one), so
  the timers are not part of the state.

  Four fields are not in the code; they record what the code does. For a conversation,
  \<open>activeRuns\<close> counts the calls of \<open>_processChatMessages\<close> that have not returned,
  \<open>turns\<close> lists the groups of messages that the loop of \<open>_processChatMessages\<close> has
  taken for processing, \<open>arrived\<close> lists the messages that have come in, and \<open>dropped\<close>
  lists the messages that were pending when their run ended.
\<close>

record 'm chatHandler =
  incomingMessages :: "jsstring \<rightharpoonup> 'm list"
  processingChats :: "jsstring \<rightharpoonup> 'm list"
  activeRuns :: "jsstring \<Rightarrow> nat"
  turns :: "jsstring \<Rightarrow> 'm list list"
  arrived :: "jsstring \<Rightarrow> 'm list"
  dropped :: "jsstring \<Rightarrow> 'm list"

definition newChatHandler :: "'m chatHandler" where
  "newChatHandler =
     \<lparr>incomingMessages = Map.empty, processingChats = Map.empty,
      activeRuns = (\<lambda>phoneNumber. 0), turns = (\<lambda>phoneNumber. []),
      arrived = (\<lambda>phoneNumber. []), dropped = (\<lambda>phoneNumber. [])\<rparr>"

text \<open>The messages of the pending group, and those of the processor, if there are any.\<close>

definition bufferedOf :: "'m chatHandler \<Rightarrow> jsstring \<Rightarrow> 'm list" where
  "bufferedOf h phoneNumber =
     (case incomingMessages h phoneNumber of None \<Rightarrow> [] | Some messages \<Rightarrow> messages)"

definition pendingOf :: "'m chatHandler \<Rightarrow> jsstring \<Rightarrow> 'm list" where
  "pendingOf h phoneNumber =
     (case processingChats h phoneNumber of
        None \<Rightarrow> []
      | Some pendingMessages \<Rightarrow> pendingMessages)"

text \<open>\<open>_addToMessageGroup(phoneNumber, message)\<close>.\<close>

definition addToMessageGroup :: "jsstring \<Rightarrow> 'm \<Rightarrow> 'm chatHandler \<Rightarrow> 'm chatHandler" where
  "addToMessageGroup phoneNumber message h =
     (case incomingMessages h phoneNumber of
        Some messages \<Rightarrow>
          h\<lparr>incomingMessages := (incomingMessages h)(phoneNumber \<mapsto> messages @ [message]),
            arrived := (arrived h)(phoneNumber := arrived h phoneNumber @ [message])\<rparr>
      | None \<Rightarrow>
          h\<lparr>incomingMessages := (incomingMessages h)(phoneNumber \<mapsto> [message]),
            arrived := (arrived h)(phoneNumber := arrived h phoneNumber @ [message])\<rparr>)"

text \<open>
  \<open>_processMessageGroup(phoneNumber)\<close>, the callback of the timer, up to its \<open>await\<close>:
  either the messages are pushed to the processor that is there, or a processor is set
  and \<open>_processChatMessages\<close> is called, which runs up to its own first \<open>await\<close>.
\<close>

definition processMessageGroup :: "jsstring \<Rightarrow> 'm chatHandler \<Rightarrow> 'm chatHandler" where
  "processMessageGroup phoneNumber h =
     (let h1 = h\<lparr>incomingMessages := (incomingMessages h)(phoneNumber := None)\<rparr>
      in (case incomingMessages h phoneNumber of
            None \<Rightarrow> h1
          | Some messages \<Rightarrow>
              if messages = [] then h1
              else
                (case processingChats h1 phoneNumber of
                   Some pendingMessages \<Rightarrow>
                     h1\<lparr>processingChats :=
                          (processingChats h1)(phoneNumber \<mapsto> pendingMessages @ messages)\<rparr>
                 | None \<Rightarrow>
                     h1\<lparr>processingChats := (processingChats h1)(phoneNumber \<mapsto> messages),
                        activeRuns := (activeRuns h1)(phoneNumber := activeRuns h1 phoneNumber + 1)\<rparr>)))"

text \<open>
  The end of a run: \<open>_processChatMessages\<close> has returned or thrown, and the \<open>finally\<close>
  block of \<open>_processMessageGroup\<close> deletes the processor. Only promise reactions lie
  between the two, so no timer callback runs in between.
\<close>

definition endRun :: "jsstring \<Rightarrow> 'm chatHandler \<Rightarrow> 'm chatHandler" where
  "endRun phoneNumber h =
     h\<lparr>processingChats := (processingChats h)(phoneNumber := None),
       activeRuns := (activeRuns h)(phoneNumber := activeRuns h phoneNumber - 1),
       dropped := (dropped h)(phoneNumber := dropped h phoneNumber @ pendingOf h phoneNumber)\<rparr>"

text \<open>
  The head of the \<open>while\<close> loop of \<open>_processChatMessages\<close>, reached by the active run
  after an \<open>await\<close>: with pending messages it takes them all and empties the list (and
  goes on to process them, which is an \<open>await\<close>); with none the loop and the run end.
\<close>

definition loopHead :: "jsstring \<Rightarrow> 'm chatHandler \<Rightarrow> 'm chatHandler" where
  "loopHead phoneNumber h =
     (case processingChats h phoneNumber of
        None \<Rightarrow> h
      | Some pendingMessages \<Rightarrow>
          if pendingMessages \<noteq> [] then
            h\<lparr>processingChats := (processingChats h)(phoneNumber \<mapsto> []),
              turns := (turns h)(phoneNumber := turns h phoneNumber @ [pendingMessages])\<rparr>
          else endRun phoneNumber h)"

text \<open>
  The states of the handler: messages arrive, timers fire, an active run comes to the
  head of its loop, and an active run ends by an error thrown while it processes a turn.
\<close>

inductive reachable :: "'m chatHandler \<Rightarrow> bool" where
  start: "reachable newChatHandler"
| arrival: "reachable h \<Longrightarrow> reachable (addToMessageGroup phoneNumber message h)"
| timer: "reachable h \<Longrightarrow> reachable (processMessageGroup phoneNumber h)"
| loop: "reachable h \<Longrightarrow> 0 < activeRuns h phoneNumber \<Longrightarrow> reachable (loopHead phoneNumber h)"
| failure: "reachable h \<Longrightarrow> 0 < activeRuns h phoneNumber \<Longrightarrow> reachable (endRun phoneNumber h)"

section \<open>Some conversations\<close>

text \<open>
  A conversation in which the upsell of the basic plan has been offered: at the time
  1000 the offer is saved as \<open>determineCurrentStage\<close> saves it (line 349), and at the
  time 2000 the stage is set to \<open>upsell\<close>.
\<close>

definition phone0 :: jsstring where
  "phone0 = js ''5511999990000''"

definition proPlanOffer :: upsellOpportunity where
  "proPlanOffer =
     \<lparr>targetPlanId = js ''pro_plan'', title = js ''Upgrade para Plano Pro'',
      timing = apos @ js ''_7_dias'', discount = 0.15, limitedTime = js ''72h''\<rparr>"

definition afterUpsellOffer :: memory where
  "afterUpsellOffer =
     (case saveMemoryEntry emptyMemory 1000 phone0 (js ''active_upsell'')
             (upsellValue proPlanOffer) (js ''sales_opportunity'') of
        Inl e \<Rightarrow> emptyMemory
      | Inr mem \<Rightarrow> snd (updateFunnelStage defaultOptions mem 2000 phone0 UPSELL))"

text \<open>
  A conversation in which the basic plan has been bought at the time 1000, and whose
  saved stage has been deleted afterwards.
\<close>

definition afterPurchase :: memory where
  "afterPurchase =
     deleteMemoryEntry
       (snd (recordPurchase defaultOptions emptyMemory 1000 phone0 (js ''basic_plan'') 99))
       phone0 (js ''current_stage'') (js ''funnel_stage'')"

text \<open>
  Two memories, as after a restart (nothing cached), whose entries have as their type
  the name that the funnel service passes to \<open>getLatestMemoryEntry\<close>: an offered upsell
  with the stage \<open>upsell\<close>, and a purchase at the time 1000.
\<close>

definition offerTypedByName :: memory where
  "offerTypedByName =
     \<lparr>db = [\<lparr>conversationId = phone0, key = js ''active_upsell'',
              type = js ''active_upsell'', val = upsellValue proPlanOffer, updatedAt = 1000\<rparr>,
             \<lparr>conversationId = phone0, key = js ''current_stage'',
              type = js ''funnel_stage'', val = VStr UPSELL, updatedAt = 2000\<rparr>],
      cache = Map.empty\<rparr>"

definition purchaseTypedByName :: memory where
  "purchaseTypedByName =
     \<lparr>db = [\<lparr>conversationId = phone0, key = js ''purchased_product'',
              type = js ''purchased_product'', val = VStr (js ''basic_plan''),
              updatedAt = 1000\<rparr>,
             \<lparr>conversationId = phone0, key = js ''last_interaction'',
              type = js ''last_interaction'',
              val = VObj [(''type'', VStr (js ''purchase'')), (''purchase_date'', VDate 1000),
                          (''product_id'', VStr (js ''basic_plan''))],
              updatedAt = 1000\<rparr>],
      cache = Map.empty\<rparr>"

section \<open>A long sentence\<close>

text \<open>
  One hundred letters \<open>a\<close>, a full stop, a space and the letter \<open>b\<close>: 103 code units,
  with the sentence boundary at position 100.
\<close>

definition longSentence :: jsstring where
  "longSentence = replicate 100 97 @ js ''. b''"

section \<open>A fragment that arrives during a run\<close>

text \<open>
  A first message arrives and its timer fires, which starts a run; then a second message
  arrives.
\<close>

definition secondFragment :: "nat chatHandler" where
  "secondFragment =
     addToMessageGroup phone0 2
       (processMessageGroup phone0 (addToMessageGroup phone0 1 newChatHandler))"

section \<open>Properties of the reply classifier\<close>

lemma includes_sublist: "str_includes s p = sublist p s"
  by (induction s) (auto simp: sublist_Cons_right)

lemma countMatches_pos:
  "0 < countMatches inds m \<longleftrightarrow> (\<exists>k \<in> set inds. str_includes m k)"
  by (auto simp: countMatches_def filter_empty_conv)

lemma confidence_formula_bounds:
  "0 \<le> min (0.3 + real n * 0.2) (0.95::real) \<and> min (0.3 + real n * 0.2) (0.95::real) \<le> 0.95"
  by (simp add: min_def)

lemma analyzeUpsellResponse_confidence_range:
  "0 \<le> confidence (analyzeUpsellResponse lower x) \<and>
   confidence (analyzeUpsellResponse lower x) \<le> 0.95"
  using confidence_formula_bounds
  by (simp add: analyzeUpsellResponse_def Let_def split: jsarg.splits)

lemma analyzeUpsellResponse_accepted_positive:
  assumes "accepted (analyzeUpsellResponse lower x)"
  shows "\<exists>text k. x = Str text \<and> k \<in> set positiveIndicators \<and> sublist k (lower text)"
  using assms
  by (auto simp: analyzeUpsellResponse_def Let_def countMatches_pos includes_sublist
           split: jsarg.splits if_splits)

lemmas classifier_unfold =
  analyzeUpsellResponse_def countMatches_def positiveIndicators_def negativeIndicators_def
  nao_def js_def toLowerCase_def lowerUnit_def

text \<open>
  Claim C10. For every input (a string, \<open>null\<close> or \<open>undefined\<close>) and every case mapping,
  \<open>analyzeUpsellResponse\<close> returns a result whose confidence lies between 0 and 0.95;
  it accepts only when the input is a string whose lowercased form contains one of the
  positive indicators; and for \<open>null\<close>, \<open>undefined\<close> and the empty string it returns
  \<open>accepted = false\<close> with confidence 0.
\<close>

theorem analyzeUpsellResponse_total_bounded:
  "0 \<le> confidence (analyzeUpsellResponse lower x) \<and>
   confidence (analyzeUpsellResponse lower x) \<le> 0.95 \<and>
   (accepted (analyzeUpsellResponse lower x) \<longrightarrow>
      (\<exists>text k. x = Str text \<and> k \<in> set positiveIndicators \<and> sublist k (lower text))) \<and>
   analyzeUpsellResponse lower Null = \<lparr>accepted = False, confidence = 0\<rparr> \<and>
   analyzeUpsellResponse lower Undefined = \<lparr>accepted = False, confidence = 0\<rparr> \<and>
   analyzeUpsellResponse lower (Str []) = \<lparr>accepted = False, confidence = 0\<rparr>"
proof -
  have "analyzeUpsellResponse lower Null = \<lparr>accepted = False, confidence = 0\<rparr>"
    and "analyzeUpsellResponse lower Undefined = \<lparr>accepted = False, confidence = 0\<rparr>"
    and "analyzeUpsellResponse lower (Str []) = \<lparr>accepted = False, confidence = 0\<rparr>"
    by (simp_all add: analyzeUpsellResponse_def)
  then show ?thesis
    using analyzeUpsellResponse_confidence_range [of lower x]
      analyzeUpsellResponse_accepted_positive [of lower x]
    by blast
qed

theorem analyzeUpsellResponse_total_bounded_witness:
  "accepted (analyzeUpsellResponse toLowerCase (Str (js ''Sim, QUERO!''))) \<and>
   (\<exists>text k. Str (js ''Sim, QUERO!'') = Str text \<and> k \<in> set positiveIndicators \<and>
      sublist k (toLowerCase text))"
proof -
  have "accepted (analyzeUpsellResponse toLowerCase (Str (js ''Sim, QUERO!'')))"
    by (simp add: classifier_unfold)
  then show ?thesis
    using analyzeUpsellResponse_total_bounded [of toLowerCase "Str (js ''Sim, QUERO!'')"]
    by blast
qed

text \<open>
  Claim C8. When the lowercased text contains positive indicators only, the reply is
  accepted with confidence \<open>min (0.3 + 0.2 * positiveCount) 0.95\<close> (for every case
  mapping that keeps the empty string empty, as the engine's does). The reply
  \<open>sim, quero!\<close> is accepted and \<open>nao\<close> followed by \<open>, muito caro\<close> is rejected, both with a
  confidence of at least 0.5.
\<close>

theorem analyzeUpsellResponse_only_positive:
  assumes "lower [] = []"
    and "0 < countMatches positiveIndicators (lower text)"
    and "countMatches negativeIndicators (lower text) = 0"
  shows "analyzeUpsellResponse lower (Str text) =
           \<lparr>accepted = True,
            confidence = min (0.3 + 0.2 * real (countMatches positiveIndicators (lower text))) 0.95\<rparr> \<and>
         accepted (analyzeUpsellResponse toLowerCase (Str (js ''sim, quero!''))) \<and>
         0.5 \<le> confidence (analyzeUpsellResponse toLowerCase (Str (js ''sim, quero!''))) \<and>
         \<not> accepted (analyzeUpsellResponse toLowerCase (Str (nao @ js '', muito caro''))) \<and>
         0.5 \<le> confidence (analyzeUpsellResponse toLowerCase (Str (nao @ js '', muito caro'')))"
proof -
  have ne: "text \<noteq> []"
    using assms(1,2) by (auto simp: countMatches_def positiveIndicators_def js_def)
  have general: "analyzeUpsellResponse lower (Str text) =
           \<lparr>accepted = True,
            confidence = min (0.3 + 0.2 * real (countMatches positiveIndicators (lower text))) 0.95\<rparr>"
    using ne assms(2,3) by (simp add: analyzeUpsellResponse_def Let_def mult.commute)
  have yes: "analyzeUpsellResponse toLowerCase (Str (js ''sim, quero!'')) =
               \<lparr>accepted = True, confidence = 0.7\<rparr>"
    by (simp add: classifier_unfold)
  have no: "analyzeUpsellResponse toLowerCase (Str (nao @ js '', muito caro'')) =
               \<lparr>accepted = False, confidence = 0.9\<rparr>"
    by (simp add: classifier_unfold)
  show ?thesis
    by (simp add: general yes no)
qed

theorem analyzeUpsellResponse_only_positive_witness:
  "toLowerCase [] = [] \<and>
   0 < countMatches positiveIndicators (toLowerCase (js ''Perfeito, vamos'')) \<and>
   countMatches negativeIndicators (toLowerCase (js ''Perfeito, vamos'')) = 0 \<and>
   analyzeUpsellResponse toLowerCase (Str (js ''Perfeito, vamos'')) =
     \<lparr>accepted = True, confidence = 0.7\<rparr>"
proof -
  have a: "toLowerCase [] = []"
    by (simp add: toLowerCase_def)
  have p: "countMatches positiveIndicators (toLowerCase (js ''Perfeito, vamos'')) = 2"
    by (simp add: classifier_unfold)
  have n: "countMatches negativeIndicators (toLowerCase (js ''Perfeito, vamos'')) = 0"
    by (simp add: classifier_unfold)
  show ?thesis
    using analyzeUpsellResponse_only_positive [of toLowerCase "js ''Perfeito, vamos''"] a p n
    by simp
qed

text \<open>
  Claim C7. The text made of \<open>nao\<close> and \<open>sim quero vamos\<close> contains one negative
  indicator and three positive ones, and \<open>nao\<close> stands before all of them, so that the
  claim asks for a rejection. The code compares the position of \<open>nao\<close> with the
  position of the single word
  \<open>interessante\<close>, which is absent here (\<open>indexOf\<close> gives \<open>-1\<close>), so the test fails
  and the majority accepts.
\<close>

theorem analyzeUpsellResponse_nao_before_positive_accepted:
  "analyzeUpsellResponse toLowerCase (Str (nao @ js '' sim quero vamos'')) =
     \<lparr>accepted = True, confidence = 0.6\<rparr> \<and>
   countMatches positiveIndicators (toLowerCase (nao @ js '' sim quero vamos'')) = 3 \<and>
   countMatches negativeIndicators (toLowerCase (nao @ js '' sim quero vamos'')) = 1 \<and>
   indexOf (toLowerCase (nao @ js '' sim quero vamos'')) nao = 0 \<and>
   indexOf (toLowerCase (nao @ js '' sim quero vamos'')) (js ''sim'') = 4 \<and>
   indexOf (toLowerCase (nao @ js '' sim quero vamos'')) (js ''interessante'') = - 1"
  by (simp add: classifier_unfold)

section \<open>Properties of the special commands\<close>

lemma extractFrom_Nil_removeMatches:
  "extractFrom s = [] \<Longrightarrow> removeMatches s = s"
  by (induction s rule: extractFrom.induct) (auto split: option.splits)

lemma run_ge2:
  "2 \<le> length (takeWhile P cs) \<Longrightarrow> \<exists>a b r. cs = a # b # r \<and> P a \<and> P b"
  by (cases cs; cases "tl cs") (auto split: if_splits)

lemma no3_collapse_id:
  "\<not> sublist [10, 10, 10] s \<Longrightarrow> collapseNewlines s = s"
proof (induction s)
  case Nil
  then show ?case by simp
next
  case (Cons c cs)
  from Cons.prems have tl: "\<not> sublist [10, 10, 10] cs" and pre: "\<not> prefix [10, 10, 10] (c # cs)"
    by (simp_all add: sublist_Cons_right)
  have "\<not> (c = 10 \<and> 2 \<le> length (takeWhile (\<lambda>d. d = 10) cs))"
  proof
    assume a: "c = 10 \<and> 2 \<le> length (takeWhile (\<lambda>d. d = 10) cs)"
    then obtain r where "cs = 10 # 10 # r"
      using run_ge2 [of "\<lambda>d. d = 10" cs] by auto
    with a pre show False by simp
  qed
  then show ?case
    using Cons.IH [OF tl] by auto
qed

lemma run_collapse:
  "length (takeWhile (\<lambda>d. d = 10) (collapseNewlines s)) =
     min 2 (length (takeWhile (\<lambda>d. d = 10) s))"
proof (induction s rule: collapseNewlines.induct)
  case 1
  then show ?case by simp
next
  case (2 c cs)
  show ?case
  proof (cases "c = 10 \<and> 2 \<le> length (takeWhile (\<lambda>d. d = 10) cs)")
    case True
    have "takeWhile (\<lambda>d. d = 10) (dropWhile (\<lambda>d. d = 10) cs) = []"
      by (metis (mono_tags, lifting) hd_dropWhile takeWhile.simps(1) takeWhile_eq_Nil_iff)
    then show ?thesis
      using True 2(1) by simp
  next
    case False
    then show ?thesis
      using 2(2) by auto
  qed
qed

lemma prefix_nl3_run:
  "prefix [10, 10, 10] t \<longleftrightarrow> 3 \<le> length (takeWhile (\<lambda>d. d = (10::nat)) t)"
  by (cases t; cases "tl t"; cases "tl (tl t)") auto

lemma collapse_no_prefix: "\<not> prefix [10, 10, 10] (collapseNewlines s)"
  by (simp add: prefix_nl3_run run_collapse)

lemma collapse_no3: "\<not> sublist [10, 10, 10] (collapseNewlines s)"
proof (induction s rule: collapseNewlines.induct)
  case 1
  then show ?case by simp
next
  case (2 c cs)
  show ?case
  proof (cases "c = 10 \<and> 2 \<le> length (takeWhile (\<lambda>d. d = 10) cs)")
    case True
    let ?X = "collapseNewlines (dropWhile (\<lambda>d. d = 10) cs)"
    have eq: "collapseNewlines (c # cs) = 10 # 10 # ?X"
      using True by simp
    have a: "\<not> sublist [10, 10, 10] ?X"
      using True 2(1) by simp
    have b: "\<not> prefix [10, 10, 10] (10 # 10 # ?X)"
      using collapse_no_prefix [of "c # cs"] eq by simp
    have c: "\<not> prefix [10, 10, 10] (10 # ?X)"
      using b by (auto simp: prefix_def)
    show ?thesis
      using a b c by (simp add: eq sublist_Cons_right del: collapseNewlines.simps)
  next
    case False
    have eq: "collapseNewlines (c # cs) = c # collapseNewlines cs"
      using False by auto
    have a: "\<not> sublist [10, 10, 10] (collapseNewlines cs)"
      using False 2(2) by auto
    have b: "\<not> prefix [10, 10, 10] (c # collapseNewlines cs)"
      using collapse_no_prefix [of "c # cs"] eq by simp
    show ?thesis
      using a b by (simp add: eq sublist_Cons_right del: collapseNewlines.simps)
  qed
qed

lemma sublist_trim: "sublist (trim s) s"
proof -
  have "sublist (rev (trim s)) (rev (dropWhile isWhitespace s))"
    by (simp add: trim_def)
  then have "sublist (trim s) (dropWhile isWhitespace s)"
    by (simp only: sublist_rev)
  then show ?thesis
    using sublist_dropWhile sublist_order.order.trans by blast
qed

lemma trim_no3: "\<not> sublist [10, 10, 10] s \<Longrightarrow> \<not> sublist [10, 10, 10] (trim s)"
  using sublist_trim sublist_order.order.trans by blast

lemma trim_idem: "trim (trim s) = trim s"
proof -
  let ?u = "dropWhile isWhitespace s"
  let ?v = "dropWhile isWhitespace (rev ?u)"
  have t: "trim s = rev ?v" by (simp add: trim_def)
  have front: "dropWhile isWhitespace (rev ?v) = rev ?v"
  proof (cases "?v = []")
    case True
    show ?thesis by (simp only: True rev.simps dropWhile.simps)
  next
    case False
    have une: "?u \<noteq> []"
    proof
      assume e: "?u = []"
      have "?v = []" by (simp only: e rev.simps dropWhile.simps)
      with False show False by simp
    qed
    have "last ?v = last (rev ?u)"
      using False by (metis last_appendR takeWhile_dropWhile_id)
    also have "\<dots> = hd ?u"
      using une by (simp add: last_rev)
    finally have "\<not> isWhitespace (last ?v)"
      using hd_dropWhile [OF une] by simp
    then have "\<not> isWhitespace (hd (rev ?v))"
      using False by (simp add: hd_rev)
    then show ?thesis
      by (simp add: dropWhile_eq_self_iff)
  qed
  have "trim (trim s) = rev (dropWhile isWhitespace (rev (dropWhile isWhitespace (rev ?v))))"
    by (simp only: t trim_def)
  also have "\<dots> = rev (dropWhile isWhitespace (rev (rev ?v)))"
    by (simp only: front)
  also have "\<dots> = rev ?v" by simp
  finally show ?thesis by (simp only: t)
qed

lemma removeSpecialCommands_fixed_when_clean:
  assumes "extractSpecialCommands (removeSpecialCommands x) = []"
  shows "removeSpecialCommands (removeSpecialCommands x) = removeSpecialCommands x"
proof -
  let ?y = "removeSpecialCommands x"
  have r: "removeMatches ?y = ?y"
    using assms by (simp add: extractSpecialCommands_def extractFrom_Nil_removeMatches)
  have "\<not> sublist [10, 10, 10] ?y"
    unfolding removeSpecialCommands_def by (rule trim_no3) (rule collapse_no3)
  then have c: "collapseNewlines ?y = ?y"
    by (rule no3_collapse_id)
  have t: "trim ?y = ?y"
    unfolding removeSpecialCommands_def by (rule trim_idem)
  have "removeSpecialCommands ?y = trim (collapseNewlines (removeMatches ?y))"
    by (simp add: removeSpecialCommands_def)
  then show ?thesis
    by (simp only: r c t)
qed

lemma isIdChar_not_whitespace: "isIdChar c \<Longrightarrow> \<not> isWhitespace c"
  by (auto simp: isIdChar_def isWhitespace_def)

lemma commandNames_first_letter:
  assumes "name \<in> set commandNames" and "name' \<in> set commandNames"
    and "asciiUpper (hd name) = asciiUpper (hd name')"
  shows "name = name'"
  using assms by (auto simp: commandNames_def js_def asciiUpper_def)

lemma commandNames_nonempty: "name \<in> set commandNames \<Longrightarrow> name \<noteq> []"
  by (auto simp: commandNames_def js_def)

lemma startsWithName_hd:
  assumes "startsWithName name rest" and "name \<noteq> []"
  shows "asciiUpper (hd rest) = asciiUpper (hd name)"
proof -
  from assms obtain a as where n: "name = a # as" by (cases name) auto
  from assms n obtain b bs where r: "rest = b # bs"
    by (cases rest) (auto simp: startsWithName_def)
  from assms(1) show ?thesis
    by (simp add: startsWithName_def n r)
qed

lemma startsWithName_unique:
  assumes "name \<in> set commandNames" and "name' \<in> set commandNames"
    and "startsWithName name rest" and "startsWithName name' rest"
  shows "name = name'"
  using assms commandNames_first_letter commandNames_nonempty startsWithName_hd
  by metis

lemma find_commandName:
  assumes "name \<in> set commandNames" and "startsWithName name rest"
  shows "find (\<lambda>n. startsWithName n rest) commandNames = Some name"
proof (cases "find (\<lambda>n. startsWithName n rest) commandNames")
  case None
  with assms show ?thesis by (auto simp: find_None_iff)
next
  case (Some name')
  then have "name' \<in> set commandNames" and "startsWithName name' rest"
    by (auto simp: find_Some_iff)
  with assms Some show ?thesis
    using startsWithName_unique by blast
qed

lemma find_commandName_Some:
  assumes "find (\<lambda>n. startsWithName n rest) commandNames = Some name"
  shows "name \<in> set commandNames \<and> startsWithName name rest"
  using assms by (auto simp: find_Some_iff)

lemma lowerUnit_of_name_letter:
  assumes "asciiUpper c = asciiUpper p" and "(97 \<le> p \<and> p \<le> 122) \<or> p = 95"
  shows "lowerUnit c = p"
  using assms by (auto simp: asciiUpper_def lowerUnit_def split: if_splits)

lemma toLowerCase_of_name:
  assumes "map asciiUpper nm = map asciiUpper name"
    and "list_all (\<lambda>p. (97 \<le> p \<and> p \<le> 122) \<or> p = 95) name"
  shows "toLowerCase nm = name"
  using assms
proof (induction nm arbitrary: name)
  case Nil
  then show ?case by (simp add: toLowerCase_def)
next
  case (Cons c cs)
  then obtain p ps where n: "name = p # ps" by (cases name) auto
  with Cons.prems have "lowerUnit c = p" and "toLowerCase cs = ps"
    using lowerUnit_of_name_letter Cons.IH [of ps] by auto
  then show ?case by (simp add: n toLowerCase_def)
qed

lemma commandNames_letters:
  "name \<in> set commandNames \<Longrightarrow> list_all (\<lambda>p. (97 \<le> p \<and> p \<le> 122) \<or> p = 95) name"
  by (auto simp: commandNames_def js_def)

lemma matchCommand_plain:
  assumes "name \<in> set commandNames" and "map asciiUpper nm = map asciiUpper name"
  shows "matchCommand (33 # nm) = Some \<lparr>cmd_type = name, cmd_id = [], fullCommand = 33 # nm\<rparr>"
proof -
  have len: "length nm = length name"
    using assms(2) by (metis length_map)
  have sw: "startsWithName name nm"
    using assms(2) len by (simp add: startsWithName_def)
  have low: "toLowerCase nm = name"
    using assms toLowerCase_of_name commandNames_letters by blast
  show ?thesis
    using find_commandName [OF assms(1) sw] len low
    by (simp add: matchCommand_def Let_def)
qed

lemma matchCommand_with_id:
  assumes "name \<in> set commandNames" and "map asciiUpper nm = map asciiUpper name"
    and "list_all isWhitespace ws" and "ident \<noteq> []" and "list_all isIdChar ident"
  shows "matchCommand (33 # nm @ 58 # ws @ ident) =
           Some \<lparr>cmd_type = name, cmd_id = ident, fullCommand = 33 # nm @ 58 # ws @ ident\<rparr>"
proof -
  have len: "length nm = length name"
    using assms(2) by (metis length_map)
  have sw: "startsWithName name (nm @ 58 # ws @ ident)"
    using assms(2) len by (simp add: startsWithName_def)
  have low: "toLowerCase nm = name"
    using assms toLowerCase_of_name commandNames_letters by blast
  obtain i rest_id where id: "ident = i # rest_id"
    using assms(4) by (cases ident) auto
  have nws: "\<not> isWhitespace i"
    using assms(5) id isIdChar_not_whitespace by simp
  have tw: "takeWhile isWhitespace (ws @ ident) = ws"
    using assms(3) nws id by (simp add: list_all_iff takeWhile_tail)
  have dw: "dropWhile isWhitespace (ws @ ident) = ident"
    using assms(3) nws id by (simp add: list_all_iff dropWhile_append3)
  have ti: "takeWhile isIdChar ident = ident"
    using assms(5) by (simp add: list_all_iff)
  show ?thesis
    using assms(4)
    by (simp add: matchCommand_def Let_def find_commandName [OF assms(1) sw] len low tw dw ti)
qed

lemma matchCommand_sound:
  assumes "matchCommand s = Some m"
  shows "directiveSyntax (fullCommand m) \<and> prefix (fullCommand m) s \<and>
         cmd_type m \<in> set commandNames \<and> list_all isIdChar (cmd_id m)"
proof -
  from assms obtain rest where s: "s = 33 # rest"
    by (cases s) (auto simp: matchCommand_def split: if_splits)
  from assms s obtain name where f: "find (\<lambda>n. startsWithName n rest) commandNames = Some name"
    by (cases "find (\<lambda>n. startsWithName n rest) commandNames") (auto simp: matchCommand_def)
  then have nm: "name \<in> set commandNames" and sw: "startsWithName name rest"
    using find_commandName_Some by auto
  let ?n = "length name"
  let ?nm = "take ?n rest"
  have up: "map asciiUpper ?nm = map asciiUpper name" and le: "?n \<le> length rest"
    using sw by (auto simp: startsWithName_def)
  have low: "toLowerCase ?nm = name"
    using up nm toLowerCase_of_name commandNames_letters by blast
  let ?plain = "\<lparr>cmd_type = name, cmd_id = [], fullCommand = 33 # ?nm\<rparr>"
  have plain_ok: "directiveSyntax (fullCommand ?plain) \<and> prefix (fullCommand ?plain) s \<and>
         cmd_type ?plain \<in> set commandNames \<and> list_all isIdChar (cmd_id ?plain)"
    using nm up by (auto simp: directiveSyntax_def s take_is_prefix)
  show ?thesis
  proof (cases "drop ?n rest")
    case Nil
    with assms s f low have "m = ?plain"
      by (simp add: matchCommand_def Let_def)
    with plain_ok show ?thesis by simp
  next
    case (Cons d r)
    show ?thesis
    proof (cases "d = 58 \<and> takeWhile isIdChar (dropWhile isWhitespace r) \<noteq> []")
      case False
      with assms s f low Cons have "m = ?plain"
        by (auto simp: matchCommand_def Let_def split: if_splits)
      with plain_ok show ?thesis by simp
    next
      case True
      let ?ws = "takeWhile isWhitespace r"
      let ?id = "takeWhile isIdChar (dropWhile isWhitespace r)"
      let ?tail = "dropWhile isIdChar (dropWhile isWhitespace r)"
      let ?full = "33 # ?nm @ 58 # ?ws @ ?id"
      have r: "r = ?ws @ ?id @ ?tail"
        by simp
      have "rest = ?nm @ d # r"
        using Cons by (metis append_take_drop_id)
      then have "s = ?full @ ?tail"
        using True r s by (metis append.assoc append_Cons)
      moreover have "length ?full = 1 + ?n + 1 + length ?ws + length ?id"
        using le by simp
      ultimately have tk: "take (1 + ?n + 1 + length ?ws + length ?id) s = ?full"
        by (metis append_eq_conv_conj)
      have m: "m = \<lparr>cmd_type = name, cmd_id = ?id, fullCommand = ?full\<rparr>"
        using assms s f low Cons True tk
        by (simp add: matchCommand_def Let_def del: take_Suc_Cons)
      have pre: "prefix ?full s"
        using \<open>s = ?full @ ?tail\<close> by (metis prefixI)
      have wsall: "list_all isWhitespace ?ws" and idall: "list_all isIdChar ?id"
        by (auto simp: list_all_iff dest: set_takeWhileD)
      have "directiveSyntax ?full"
        unfolding directiveSyntax_def using nm up wsall idall True by blast
      then show ?thesis
        using m pre nm idall by simp
    qed
  qed
qed

lemma extractFrom_sound:
  "c \<in> set (extractFrom s) \<Longrightarrow>
     directiveSyntax (fullCommand c) \<and> sublist (fullCommand c) s \<and>
     cmd_type c \<in> set commandNames \<and> list_all isIdChar (cmd_id c)"
proof (induction s rule: extractFrom.induct)
  case 1
  then show ?case by simp
next
  case (2 d ds)
  show ?case
  proof (cases "matchCommand (d # ds)")
    case None
    with 2 have "directiveSyntax (fullCommand c) \<and> sublist (fullCommand c) ds \<and>
       cmd_type c \<in> set commandNames \<and> list_all isIdChar (cmd_id c)"
      by simp
    then show ?thesis
      by (auto simp: sublist_Cons_right)
  next
    case (Some m)
    with 2(3) consider "c = m" | "c \<in> set (extractFrom (drop (length (fullCommand m) - 1) ds))"
      by auto
    then show ?thesis
    proof cases
      case 1
      then show ?thesis
        using matchCommand_sound [OF Some] by auto
    next
      case 2
      with "2.IH"(2) [OF Some] have
        a: "directiveSyntax (fullCommand c) \<and>
         sublist (fullCommand c) (drop (length (fullCommand m) - 1) ds) \<and>
         cmd_type c \<in> set commandNames \<and> list_all isIdChar (cmd_id c)"
        by simp
      have "sublist (drop (length (fullCommand m) - 1) ds) (d # ds)"
        by (metis sublist_drop sublist_Cons_right)
      with a show ?thesis
        using sublist_order.order.trans by blast
    qed
  qed
qed

lemmas command_unfold =
  extractSpecialCommands_def removeSpecialCommands_def matchCommand_def commandNames_def
  startsWithName_def asciiUpper_def isIdChar_def isWhitespace_def trim_def js_def
  toLowerCase_def lowerUnit_def Let_def

lemma length_removeMatches: "length (removeMatches s) \<le> length s"
proof (induction s rule: removeMatches.induct)
  case 1
  then show ?case by simp
next
  case (2 c cs)
  show ?case
  proof (cases "matchCommand (c # cs)")
    case None
    with 2 show ?thesis by simp
  next
    case (Some m)
    with 2 have "length (removeMatches (drop (length (fullCommand m) - 1) cs)) \<le> length cs"
      by (simp add: le_diff_conv trans_le_add1)
    with Some show ?thesis by simp
  qed
qed

lemma removeMatches_shorter:
  "extractFrom s \<noteq> [] \<Longrightarrow> length (removeMatches s) < length s"
proof (induction s rule: extractFrom.induct)
  case 1
  then show ?case by simp
next
  case (2 c cs)
  show ?case
  proof (cases "matchCommand (c # cs)")
    case None
    with 2 show ?thesis by simp
  next
    case (Some m)
    have "length (removeMatches (drop (length (fullCommand m) - 1) cs)) \<le> length cs"
      using length_removeMatches [of "drop (length (fullCommand m) - 1) cs"] by simp
    with Some show ?thesis by simp
  qed
qed

lemma length_collapseNewlines: "length (collapseNewlines s) \<le> length s"
proof (induction s rule: collapseNewlines.induct)
  case 1
  then show ?case by simp
next
  case (2 c cs)
  show ?case
  proof (cases "c = 10 \<and> 2 \<le> length (takeWhile (\<lambda>d. d = 10) cs)")
    case True
    have "length cs = length (takeWhile (\<lambda>d. d = 10) cs) + length (dropWhile (\<lambda>d. d = 10) cs)"
      by (metis length_append takeWhile_dropWhile_id)
    with True 2(1) show ?thesis by simp
  next
    case False
    with 2(2) show ?thesis by auto
  qed
qed

lemma length_trim: "length (trim s) \<le> length s"
proof -
  have "length (trim s) \<le> length (dropWhile isWhitespace s)"
    unfolding trim_def by (metis length_dropWhile_le length_rev)
  then show ?thesis
    using length_dropWhile_le [of isWhitespace s] by simp
qed

lemma strip_not_fixed:
  assumes "extractSpecialCommands y \<noteq> []"
  shows "removeSpecialCommands y \<noteq> y"
proof -
  have "length (removeSpecialCommands y) \<le> length (removeMatches y)"
    unfolding removeSpecialCommands_def
    using length_trim length_collapseNewlines le_trans by blast
  also have "\<dots> < length y"
    using assms by (simp add: extractSpecialCommands_def removeMatches_shorter)
  finally show ?thesis by auto
qed

text \<open>
  Claim C5, as amended. Stripping twice gives the same text as stripping once exactly
  when the text stripped once holds no command any more. (Collapsing the line feeds and
  trimming are idempotent; removing the commands is one pass of the pattern.)
\<close>

theorem removeSpecialCommands_idempotent_iff:
  "removeSpecialCommands (removeSpecialCommands x) = removeSpecialCommands x \<longleftrightarrow>
     extractSpecialCommands (removeSpecialCommands x) = []"
  using removeSpecialCommands_fixed_when_clean strip_not_fixed by blast

theorem removeSpecialCommands_idempotent_iff_witness:
  "extractSpecialCommands
     (removeSpecialCommands (js ''Oi !etapa:closing'' @ [10, 10, 10, 10] @ js ''Tudo bem?  '')) = [] \<and>
   removeSpecialCommands (js ''Oi !etapa:closing'' @ [10, 10, 10, 10] @ js ''Tudo bem?  '') =
     js ''Oi '' @ [10, 10] @ js ''Tudo bem?'' \<and>
   removeSpecialCommands
     (removeSpecialCommands (js ''Oi !etapa:closing'' @ [10, 10, 10, 10] @ js ''Tudo bem?  '')) =
     js ''Oi '' @ [10, 10] @ js ''Tudo bem?''"
proof -
  let ?x = "js ''Oi !etapa:closing'' @ [10, 10, 10, 10] @ js ''Tudo bem?  ''"
  have r: "removeSpecialCommands ?x = js ''Oi '' @ [10, 10] @ js ''Tudo bem?''"
    by (simp add: command_unfold)
  have e: "extractSpecialCommands (js ''Oi '' @ [10, 10] @ js ''Tudo bem?'') = []"
    by (simp add: command_unfold)
  show ?thesis
    using removeSpecialCommands_idempotent_iff [of ?x] r e by simp
qed

text \<open>
  Claim C5, as stated, fails: removing \<open>!suporte\<close> from the middle of
  \<open>!chec!suportekout\<close> joins the two halves of \<open>!checkout\<close>, which the second
  application removes.
\<close>

theorem removeSpecialCommands_not_idempotent:
  "removeSpecialCommands (js ''!chec!suportekout'') = js ''!checkout'' \<and>
   removeSpecialCommands (removeSpecialCommands (js ''!chec!suportekout'')) = []"
  by (simp add: command_unfold)

lemma extractFrom_single:
  assumes "matchCommand (c # cs) = Some m" and "fullCommand m = c # cs"
  shows "extractFrom (c # cs) = [m]" and "removeMatches (c # cs) = []"
  using assms by simp_all

text \<open>
  Claim C6, as amended. The names of the wire format are \<open>prova_social\<close>, \<open>checkout\<close>,
  \<open>etapa\<close> and \<open>suporte\<close>, in letters of either case. A string \<open>!name\<close>, and a string
  \<open>!name:\<close> followed by any white space and a non-empty identifier over
  \<open>[A-Za-z0-9_-]\<close>, is extracted as exactly one command (its type the name in lower
  case, its id the identifier or the empty string) and removed entirely. Every command
  extracted from any text is an occurrence of this syntax in the text.
\<close>

theorem command_wire_format:
  assumes "name \<in> set commandNames" and "map asciiUpper nm = map asciiUpper name"
    and "list_all isWhitespace ws" and "ident \<noteq> []" and "list_all isIdChar ident"
  shows "extractSpecialCommands (33 # nm) =
           [\<lparr>cmd_type = name, cmd_id = [], fullCommand = 33 # nm\<rparr>] \<and>
         removeSpecialCommands (33 # nm) = [] \<and>
         extractSpecialCommands (33 # nm @ 58 # ws @ ident) =
           [\<lparr>cmd_type = name, cmd_id = ident, fullCommand = 33 # nm @ 58 # ws @ ident\<rparr>] \<and>
         removeSpecialCommands (33 # nm @ 58 # ws @ ident) = [] \<and>
         (\<forall>c \<in> set (extractSpecialCommands text).
            directiveSyntax (fullCommand c) \<and> sublist (fullCommand c) text \<and>
            cmd_type c \<in> set commandNames \<and> list_all isIdChar (cmd_id c))"
proof -
  note p = matchCommand_plain [OF assms(1,2)]
  note w = matchCommand_with_id [OF assms]
  have e1: "extractFrom (33 # nm) = [\<lparr>cmd_type = name, cmd_id = [], fullCommand = 33 # nm\<rparr>]"
    and r1: "removeMatches (33 # nm) = []"
    using extractFrom_single [OF p] by simp_all
  have e2: "extractFrom (33 # nm @ 58 # ws @ ident) =
             [\<lparr>cmd_type = name, cmd_id = ident, fullCommand = 33 # nm @ 58 # ws @ ident\<rparr>]"
    and r2: "removeMatches (33 # nm @ 58 # ws @ ident) = []"
    using extractFrom_single [OF w] by simp_all
  have t: "trim (collapseNewlines []) = []"
    by (simp add: trim_def)
  show ?thesis
    unfolding extractSpecialCommands_def removeSpecialCommands_def e1 r1 e2 r2 t
    using extractFrom_sound [of _ "text"] by blast
qed

theorem command_wire_format_witness:
  "js ''checkout'' \<in> set commandNames \<and>
   map asciiUpper (js ''Checkout'') = map asciiUpper (js ''checkout'') \<and>
   list_all isWhitespace (js '' '') \<and> js ''PRO-1'' \<noteq> [] \<and> list_all isIdChar (js ''PRO-1'') \<and>
   extractSpecialCommands (js ''!Checkout: PRO-1'') =
     [\<lparr>cmd_type = js ''checkout'', cmd_id = js ''PRO-1'', fullCommand = js ''!Checkout: PRO-1''\<rparr>] \<and>
   removeSpecialCommands (js ''!Checkout: PRO-1'') = [] \<and>
   \<lparr>cmd_type = js ''etapa'', cmd_id = js ''closing'', fullCommand = js ''!etapa:closing''\<rparr>
     \<in> set (extractSpecialCommands (js ''Oi !etapa:closing.'')) \<and>
   directiveSyntax (js ''!etapa:closing'')"
proof -
  have h1: "js ''checkout'' \<in> set commandNames"
    by (simp add: commandNames_def)
  have h2: "map asciiUpper (js ''Checkout'') = map asciiUpper (js ''checkout'')"
    by (simp add: js_def asciiUpper_def)
  have h3: "list_all isWhitespace (js '' '')"
    by (simp add: js_def isWhitespace_def)
  have h4: "js ''PRO-1'' \<noteq> []"
    by (simp add: js_def)
  have h5: "list_all isIdChar (js ''PRO-1'')"
    by (simp add: js_def isIdChar_def)
  have s: "js ''!Checkout: PRO-1'' = 33 # js ''Checkout'' @ 58 # js '' '' @ js ''PRO-1''"
    by (simp add: js_def)
  have m: "\<lparr>cmd_type = js ''etapa'', cmd_id = js ''closing'', fullCommand = js ''!etapa:closing''\<rparr>
     \<in> set (extractSpecialCommands (js ''Oi !etapa:closing.''))"
    by (simp add: command_unfold)
  show ?thesis
    using command_wire_format [OF h1 h2 h3 h4 h5, of "js ''Oi !etapa:closing.''"] h1 h2 h3 h4 h5 s m
    by fastforce
qed

text \<open>
  Claim C6, as stated, fails: \<open>!stage:x\<close> is not extracted, and \<open>!checkout: PRO\<close>,
  with a space after the colon and capitals in the identifier, is.
\<close>

theorem command_names_not_english:
  "extractSpecialCommands (js ''!stage:x !checkout: PRO'') =
     [\<lparr>cmd_type = js ''checkout'', cmd_id = js ''PRO'', fullCommand = js ''!checkout: PRO''\<rparr>]"
  by (simp add: command_unfold)

section \<open>Properties of the sales funnel service\<close>

lemmas stage_names =
  GREETING_def QUALIFICATION_def NEED_DISCOVERY_def PAIN_POINT_EXPLORATION_def
  SOLUTION_PRESENTATION_def PRODUCT_DEMONSTRATION_def VALUE_PROPOSITION_def
  PROOF_AND_CREDIBILITY_def OBJECTION_HANDLING_def PRICE_DISCUSSION_def CLOSING_def
  CHECKOUT_def POST_PURCHASE_FOLLOWUP_def UPSELL_def DOWNSELL_def CROSS_SELL_def
  REACTIVATION_def FEEDBACK_def FUNNEL_STAGES_def

lemmas funnel_unfold =
  stage_names js_def
  truthy_def getProp_def updateMemoryEntryCache_def saveMemoryEntry_def
  getLatestMemoryEntry_def deleteMemoryEntry_def emptyMemory_def
  rejectActiveUpsell_def updateFunnelStage_def recordPurchase_def
  specialOpportunityStage_def determineCurrentStage_def stageFromMessages_def
  checkUpsellOpportunity_def getDownsellForRejectedUpsell_def
  UPSELL_OPPORTUNITIES_def DOWNSELL_ALTERNATIVES_def upsellValue_def downsellValue_def
  defaultOptions_def timingDays_def apos_def toDate_def ceilDiv_def
  calculateDaysBetween_def calculateHoursBetween_def Let_def

lemma afterUpsellOffer_db:
  "db afterUpsellOffer =
     [\<lparr>conversationId = phone0, key = js ''active_upsell'', type = js ''sales_opportunity'',
       val = upsellValue proPlanOffer, updatedAt = 1000\<rparr>,
      \<lparr>conversationId = phone0, key = js ''current_stage'', type = js ''funnel_stage'',
       val = VStr UPSELL, updatedAt = 2000\<rparr>,
      \<lparr>conversationId = phone0, key = js ''stage_transition_2000'',
       type = js ''funnel_analytics'',
       val = VObj [(''from'', VStr GREETING), (''to'', VStr UPSELL), (''timestamp'', VDate 2000)],
       updatedAt = 2000\<rparr>]"
  by (simp add: afterUpsellOffer_def phone0_def proPlanOffer_def funnel_unfold)

lemma eighteen_stages: "length FUNNEL_STAGES = 18 \<and> distinct FUNNEL_STAGES"
  by (simp add: stage_names js_def)

text \<open>
  The rules themselves are there. When the entries have as their type the name that is
  read, leaving the upsell records the rejection and applies the downsell, and the
  purchase of seven days ago activates the upsell (and the one of twenty days ago does
  not).
\<close>

lemma checkUpsellOpportunity_basic_plan:
  "checkUpsellOpportunity defaultOptions (js ''basic_plan'') d =
     (if 6 \<le> d \<and> d \<le> 10 then Some proPlanOffer else None)"
  by (simp add: proPlanOffer_def funnel_unfold)

lemma updateFunnelStage_downsell_when_typed_by_name:
  "fst (updateFunnelStage defaultOptions offerTypedByName 3000 phone0 CLOSING) = None \<and>
   map (\<lambda>e. (key e, type e, val e))
     (db (snd (updateFunnelStage defaultOptions offerTypedByName 3000 phone0 CLOSING))) =
     [(js ''active_upsell'', js ''active_upsell'', upsellValue proPlanOffer),
      (js ''current_stage'', js ''funnel_stage'', VStr DOWNSELL),
      (js ''rejected_upsell'', js ''sales_opportunity'',
       VObj [(''target_plan_id'', VStr (js ''pro_plan'')), (''rejection_time'', VDate 3000)]),
      (js ''active_downsell'', js ''sales_opportunity'',
       downsellValue \<lparr>d_targetPlanId = js ''basic_plus_plan'',
           d_title = js ''Plano B'' @ [225] @ js ''sico Plus'',
           d_discount = 0.25, d_limitedTime = js ''24h''\<rparr>),
      (js ''stage_transition_3000'', js ''funnel_analytics'',
       VObj [(''from'', VStr UPSELL), (''to'', VStr DOWNSELL), (''timestamp'', VDate 3000)])]"
  by (simp add: offerTypedByName_def phone0_def proPlanOffer_def funnel_unfold)

lemma determineCurrentStage_upsell_when_typed_by_name:
  "fst (determineCurrentStage toLowerCase defaultOptions purchaseTypedByName 604801000 phone0
          (Some [])) = VStr UPSELL \<and>
   map (\<lambda>e. (key e, type e, val e))
     (db (snd (determineCurrentStage toLowerCase defaultOptions purchaseTypedByName 604801000
                 phone0 (Some [])))) =
     [(js ''purchased_product'', js ''purchased_product'', VStr (js ''basic_plan'')),
      (js ''last_interaction'', js ''last_interaction'',
       VObj [(''type'', VStr (js ''purchase'')), (''purchase_date'', VDate 1000),
             (''product_id'', VStr (js ''basic_plan''))]),
      (js ''active_upsell'', js ''sales_opportunity'', upsellValue proPlanOffer)] \<and>
   calculateDaysBetween 1000 1728001000 = 20 \<and>
   fst (determineCurrentStage toLowerCase defaultOptions purchaseTypedByName 1728001000 phone0
          (Some [])) = VStr GREETING \<and>
   map (\<lambda>e. (key e, type e))
     (db (snd (determineCurrentStage toLowerCase defaultOptions purchaseTypedByName 1728001000
                 phone0 (Some [])))) =
     [(js ''purchased_product'', js ''purchased_product''),
      (js ''last_interaction'', js ''last_interaction''),
      (js ''current_stage'', js ''funnel_stage'')]"
  by (simp add: purchaseTypedByName_def phone0_def proPlanOffer_def funnel_unfold)

text \<open>
  Claim C1. In the conversation \<open>afterUpsellOffer\<close> the saved stage is \<open>upsell\<close>, and
  the offer of \<open>pro_plan\<close>, which has a downsell, is saved under the key
  \<open>active_upsell\<close> with the type \<open>sales_opportunity\<close>. \<open>updateFunnelStage\<close> with
  \<open>closing\<close> reads the offer with \<open>getLatestMemoryEntry(phoneNumber, "active_upsell")\<close>,
  which looks for entries of the type \<open>active_upsell\<close> and finds none. The stage saved is
  \<open>closing\<close>, and neither a rejection nor a downsell is recorded.
\<close>

theorem updateFunnelStage_upsell_left_unrecorded:
  "fst (updateFunnelStage defaultOptions afterUpsellOffer 3000 phone0 CLOSING) = None \<and>
   db (snd (updateFunnelStage defaultOptions afterUpsellOffer 3000 phone0 CLOSING)) =
     [\<lparr>conversationId = phone0, key = js ''active_upsell'', type = js ''sales_opportunity'',
       val = upsellValue proPlanOffer, updatedAt = 1000\<rparr>,
      \<lparr>conversationId = phone0, key = js ''current_stage'', type = js ''funnel_stage'',
       val = VStr CLOSING, updatedAt = 3000\<rparr>,
      \<lparr>conversationId = phone0, key = js ''stage_transition_2000'',
       type = js ''funnel_analytics'',
       val = VObj [(''from'', VStr GREETING), (''to'', VStr UPSELL), (''timestamp'', VDate 2000)],
       updatedAt = 2000\<rparr>,
      \<lparr>conversationId = phone0, key = js ''stage_transition_3000'',
       type = js ''funnel_analytics'',
       val = VObj [(''from'', VStr UPSELL), (''to'', VStr CLOSING), (''timestamp'', VDate 3000)],
       updatedAt = 3000\<rparr>] \<and>
   getDownsellForRejectedUpsell defaultOptions (VStr (targetPlanId proPlanOffer)) =
     Some \<lparr>d_targetPlanId = js ''basic_plus_plan'',
           d_title = js ''Plano B'' @ [225] @ js ''sico Plus'',
           d_discount = 0.25, d_limitedTime = js ''24h''\<rparr>"
  by (simp add: afterUpsellOffer_def phone0_def proPlanOffer_def funnel_unfold)

text \<open>
  Claim C3. In the conversation \<open>afterPurchase\<close> the purchase of \<open>basic_plan\<close> is
  recorded by \<open>recordPurchase\<close> and no stage is saved. Seven days later the offer of
  \<open>pro_plan\<close> is due (\<open>checkUpsellOpportunity\<close> returns it), but
  \<open>determineCurrentStage\<close> reads the purchase with
  \<open>getLatestMemoryEntry(phoneNumber, "purchased_product")\<close>, which looks for entries of
  the type \<open>purchased_product\<close>, where \<open>recordPurchase\<close> has written the key
  \<open>purchased_product\<close> with the type \<open>purchase_history\<close>. With no messages it returns
  \<open>greeting\<close>, saves that stage, and saves no active upsell.
\<close>

theorem determineCurrentStage_purchase_unseen:
  "fst (recordPurchase defaultOptions emptyMemory 1000 phone0 (js ''basic_plan'') 99) = None \<and>
   db afterPurchase =
     [\<lparr>conversationId = phone0, key = js ''purchased_product'', type = js ''purchase_history'',
       val = VStr (js ''basic_plan''), updatedAt = 1000\<rparr>,
      \<lparr>conversationId = phone0, key = js ''purchase_1000'', type = js ''purchase_history'',
       val = VObj [(''product_id'', VStr (js ''basic_plan'')), (''value'', VNum 99),
                   (''purchase_date'', VDate 1000)],
       updatedAt = 1000\<rparr>,
      \<lparr>conversationId = phone0, key = js ''last_interaction'', type = js ''customer_journey'',
       val = VObj [(''type'', VStr (js ''purchase'')), (''purchase_date'', VDate 1000),
                   (''product_id'', VStr (js ''basic_plan''))],
       updatedAt = 1000\<rparr>,
      \<lparr>conversationId = phone0, key = js ''stage_transition_1000'',
       type = js ''funnel_analytics'',
       val = VObj [(''from'', VStr GREETING), (''to'', VStr POST_PURCHASE_FOLLOWUP),
                   (''timestamp'', VDate 1000)],
       updatedAt = 1000\<rparr>] \<and>
   calculateDaysBetween 1000 604801000 = 7 \<and>
   checkUpsellOpportunity defaultOptions (js ''basic_plan'') 7 = Some proPlanOffer \<and>
   checkUpsellOpportunity defaultOptions (js ''basic_plan'') 20 = None \<and>
   fst (determineCurrentStage toLowerCase defaultOptions afterPurchase 604801000 phone0 (Some [])) =
     VStr GREETING \<and>
   db (snd (determineCurrentStage toLowerCase defaultOptions afterPurchase 604801000 phone0
              (Some []))) =
     db afterPurchase @
     [\<lparr>conversationId = phone0, key = js ''current_stage'', type = js ''funnel_stage'',
       val = VStr GREETING, updatedAt = 604801000\<rparr>]"
  by (simp add: afterPurchase_def phone0_def proPlanOffer_def funnel_unfold)

text \<open>
  Claim C2. For a stage that is not one of the 18 values of \<open>FUNNEL_STAGES\<close>,
  \<open>updateFunnelStage\<close> throws the error of an invalid funnel stage and leaves the memory
  as it was: the saved stage is unchanged and no transition is recorded.
\<close>

theorem updateFunnelStage_invalid_stage:
  assumes "newStage \<notin> set FUNNEL_STAGES"
  shows "updateFunnelStage opts mem now phoneNumber newStage =
           (Some (FailedToUpdateFunnelStage (InvalidFunnelStage newStage)), mem)"
  using assms by (simp add: updateFunnelStage_def)

theorem updateFunnelStage_invalid_stage_witness:
  "js ''negotiation'' \<notin> set FUNNEL_STAGES \<and>
   updateFunnelStage defaultOptions afterUpsellOffer 3000 phone0 (js ''negotiation'') =
     (Some (FailedToUpdateFunnelStage (InvalidFunnelStage (js ''negotiation''))), afterUpsellOffer)"
proof -
  have h: "js ''negotiation'' \<notin> set FUNNEL_STAGES"
    by (simp add: stage_names js_def)
  show ?thesis
    using h updateFunnelStage_invalid_stage [OF h] by simp
qed

section \<open>Properties of the message splitting\<close>

lemma longSentence_length: "length longSentence = 103"
  by (simp add: longSentence_def js_def)

lemma longSentence_paragraphs: "splitParagraphs longSentence [] = [longSentence]"
  unfolding longSentence_def by code_simp

lemma longSentence_boundary: "lastIndexOf longSentence (js ''. '') 100 = 100"
  unfolding longSentence_def by code_simp

lemma trim_unchanged:
  assumes "s \<noteq> []" and "\<not> isWhitespace (hd s)" and "\<not> isWhitespace (last s)"
  shows "trim s = s"
proof -
  have a: "dropWhile isWhitespace s = s"
    using assms(1,2) by (cases s) auto
  have "rev s \<noteq> []" and "\<not> isWhitespace (hd (rev s))"
    using assms(1,3) by (simp_all add: hd_rev)
  then have b: "dropWhile isWhitespace (rev s) = rev s"
    by (cases "rev s") auto
  show ?thesis
    by (simp add: trim_def a b)
qed

lemma longSentence_first: "trim (substring longSentence 0 101) = replicate 100 97 @ js ''.''"
proof -
  have "substring longSentence 0 101 = replicate 100 97 @ [46]"
    by (simp add: substring_def longSentence_def js_def)
  moreover have "trim (replicate 100 97 @ [46]) = replicate 100 97 @ [46]"
    by (rule trim_unchanged) (simp_all add: isWhitespace_def)
  ultimately show ?thesis
    by (simp add: js_def)
qed

lemma longSentence_rest: "trim (drop 101 longSentence) = js ''b''"
  by (simp add: longSentence_def js_def trim_def isWhitespace_def)

lemma longSentence_chunks:
  "splitTextChunks longSentence 100 = Some [replicate 100 97 @ js ''.'', js ''b'']"
proof -
  have second: "splitTextLoop longSentence 100 101 [replicate 100 97 @ js ''.''] =
                  Some [replicate 100 97 @ js ''.'', js ''b'']"
    by (subst splitTextLoop.simps)
       (simp add: longSentence_length longSentence_rest)
  have "splitTextLoop longSentence 100 0 [] =
          splitTextLoop longSentence 100 101 [replicate 100 97 @ js ''.'']"
    by (subst splitTextLoop.simps)
       (simp add: longSentence_length longSentence_boundary longSentence_first Let_def)
  then show ?thesis
    by (simp add: splitTextChunks_def second)
qed

text \<open>
  Claim C9. With a maximum of 100 units per message (the least value the configuration
  admits) the long sentence is split, with or without the paragraph mode, into a first
  chunk of 101 units: \<open>lastIndexOf(". ", end)\<close> also finds the boundary that starts at
  \<open>end = start + maxLength\<close>, and the chunk runs up to and including that position.
\<close>

theorem splitMessage_chunk_over_max:
  "splitMessage 100 True (replicate 100 97 @ js ''. b'') =
     Some [replicate 100 97 @ js ''.'', js ''b''] \<and>
   splitMessage 100 False (replicate 100 97 @ js ''. b'') =
     Some [replicate 100 97 @ js ''.'', js ''b''] \<and>
   lastIndexOf (replicate 100 97 @ js ''. b'') (js ''. '') 100 = 100 \<and>
   length (replicate 100 97 @ js ''.'') = 101"
proof -
  have "splitMessage 100 True longSentence = Some [replicate 100 97 @ js ''.'', js ''b'']"
    by (simp add: splitMessage_def longSentence_length longSentence_paragraphs
          longSentence_chunks)
  moreover have "splitMessage 100 False longSentence =
      Some [replicate 100 97 @ js ''.'', js ''b'']"
    by (simp add: splitMessage_def longSentence_length longSentence_chunks)
  moreover have "length (replicate 100 97 @ js ''.'') = 101"
    by (simp add: js_def)
  ultimately show ?thesis
    using longSentence_boundary by (simp add: longSentence_def)
qed

section \<open>Properties of the grouping of messages\<close>

lemma run_invariant:
  "reachable h \<Longrightarrow>
     activeRuns h p \<le> 1 \<and> (activeRuns h p = 1 \<longleftrightarrow> processingChats h p \<noteq> None)"
proof (induction arbitrary: p rule: reachable.induct)
  case start
  then show ?case by (simp add: newChatHandler_def)
next
  case (arrival h phoneNumber message)
  then show ?case
    by (simp add: addToMessageGroup_def split: option.splits)
next
  case (timer h phoneNumber)
  from timer.IH [of p] timer.IH [of phoneNumber] show ?case
    by (auto simp: processMessageGroup_def Let_def split: option.splits)
next
  case (loop h phoneNumber)
  from loop.IH [of p] loop.IH [of phoneNumber] loop.hyps show ?case
    by (auto simp: loopHead_def endRun_def split: option.splits)
next
  case (failure h phoneNumber)
  from failure.IH [of p] failure.IH [of phoneNumber] failure.hyps show ?case
    by (auto simp: endRun_def)
qed

lemma timer_during_run:
  assumes "processingChats h p = Some pending" and "incomingMessages h p = Some ms" and "ms \<noteq> []"
  shows "processingChats (processMessageGroup p h) p = Some (pending @ ms) \<and>
         activeRuns (processMessageGroup p h) = activeRuns h \<and>
         incomingMessages (processMessageGroup p h) p = None \<and>
         turns (processMessageGroup p h) = turns h"
  using assms by (simp add: processMessageGroup_def Let_def)

lemma loop_takes_pending:
  assumes "processingChats h p = Some pending" and "pending \<noteq> []"
  shows "processingChats (loopHead p h) p = Some [] \<and>
         activeRuns (loopHead p h) = activeRuns h \<and>
         turns (loopHead p h) p = turns h p @ [pending]"
  using assms by (simp add: loopHead_def)

lemma loop_ends_when_empty:
  assumes "reachable h" and "processingChats h p = Some []"
  shows "processingChats (loopHead p h) p = None \<and> activeRuns (loopHead p h) p = 0"
  using assms run_invariant [of h p] by (auto simp: loopHead_def endRun_def)

lemma messages_accounted:
  "reachable h \<Longrightarrow>
     mset (arrived h p) =
       mset (concat (turns h p)) + mset (pendingOf h p) + mset (bufferedOf h p) + mset (dropped h p)"
proof (induction arbitrary: p rule: reachable.induct)
  case start
  then show ?case by (simp add: newChatHandler_def pendingOf_def bufferedOf_def)
next
  case (arrival h phoneNumber message)
  from arrival.IH [of p] show ?case
    by (auto simp: addToMessageGroup_def pendingOf_def bufferedOf_def split: option.splits)
next
  case (timer h phoneNumber)
  from timer.IH [of p] show ?case
    by (auto simp: processMessageGroup_def Let_def pendingOf_def bufferedOf_def split: option.splits)
next
  case (loop h phoneNumber)
  from loop.IH [of p] show ?case
    by (auto simp: loopHead_def endRun_def pendingOf_def bufferedOf_def split: option.splits)
next
  case (failure h phoneNumber)
  from failure.IH [of p] show ?case
    by (auto simp: endRun_def pendingOf_def bufferedOf_def split: option.splits)
qed

lemma loopHead_drops_nothing: "dropped (loopHead p h) = dropped h"
  by (auto simp: loopHead_def endRun_def pendingOf_def split: option.splits)

lemma dropped_only_by_failure:
  "dropped (addToMessageGroup p m h) = dropped h \<and> dropped (processMessageGroup p h) = dropped h"
  by (auto simp: addToMessageGroup_def processMessageGroup_def Let_def split: option.splits)

text \<open>
  Claim C4. In every state of the handler a conversation has at most one active run, and
  it has one exactly when it has a processor. When the timer fires while a run is active,
  the new messages are appended to the pending list of that run, the buffer is emptied
  and no run is started. At the head of its loop the run takes all the pending messages
  as one turn and stays active; it ends there only when the pending list is empty. Every
  message that has arrived is in a turn, pending, in the buffer or dropped, and messages
  are dropped only by a run that ends by an error.
\<close>

theorem one_processing_run:
  assumes "reachable h"
  shows "activeRuns h p \<le> 1 \<and>
         (activeRuns h p = 1 \<longleftrightarrow> processingChats h p \<noteq> None) \<and>
         (\<forall>pending ms.
            processingChats h p = Some pending \<and> incomingMessages h p = Some ms \<and> ms \<noteq> [] \<longrightarrow>
              processingChats (processMessageGroup p h) p = Some (pending @ ms) \<and>
              activeRuns (processMessageGroup p h) = activeRuns h \<and>
              incomingMessages (processMessageGroup p h) p = None) \<and>
         (\<forall>pending.
            processingChats h p = Some pending \<and> pending \<noteq> [] \<longrightarrow>
              processingChats (loopHead p h) p = Some [] \<and>
              activeRuns (loopHead p h) p = 1 \<and>
              turns (loopHead p h) p = turns h p @ [pending]) \<and>
         (processingChats h p = Some [] \<longrightarrow>
              processingChats (loopHead p h) p = None \<and> activeRuns (loopHead p h) p = 0) \<and>
         mset (arrived h p) =
           mset (concat (turns h p)) + mset (pendingOf h p) + mset (bufferedOf h p) +
           mset (dropped h p) \<and>
         dropped (addToMessageGroup p m h) = dropped h \<and>
         dropped (processMessageGroup p h) = dropped h \<and>
         dropped (loopHead p h) = dropped h"
proof -
  note inv = run_invariant [OF assms, of p]
  note acc = messages_accounted [OF assms, of p]
  note drp = dropped_only_by_failure [of p m h] loopHead_drops_nothing [of p h]
  have "\<forall>pending. processingChats h p = Some pending \<and> pending \<noteq> [] \<longrightarrow>
              processingChats (loopHead p h) p = Some [] \<and>
              activeRuns (loopHead p h) p = 1 \<and>
              turns (loopHead p h) p = turns h p @ [pending]"
    using inv loop_takes_pending [of h p] by auto
  then show ?thesis
    using inv acc drp timer_during_run [of h p] loop_ends_when_empty [OF assms, of p] by blast
qed

lemma secondFragment_reachable: "reachable secondFragment"
  unfolding secondFragment_def by (intro reachable.intros)

theorem one_processing_run_witness:
  "reachable secondFragment \<and>
   processingChats secondFragment phone0 = Some [1] \<and>
   incomingMessages secondFragment phone0 = Some [2] \<and>
   activeRuns secondFragment phone0 = 1 \<and>
   processingChats (processMessageGroup phone0 secondFragment) phone0 = Some [1, 2] \<and>
   activeRuns (processMessageGroup phone0 secondFragment) phone0 = 1 \<and>
   processingChats (loopHead phone0 (processMessageGroup phone0 secondFragment)) phone0 = Some [] \<and>
   turns (loopHead phone0 (processMessageGroup phone0 secondFragment)) phone0 = [[1, 2]] \<and>
   arrived secondFragment phone0 = [1, 2] \<and>
   dropped (loopHead phone0 (processMessageGroup phone0 secondFragment)) phone0 = []"
proof -
  have a: "processingChats secondFragment phone0 = Some [1]"
    and b: "incomingMessages secondFragment phone0 = Some [2]"
    and t: "turns (processMessageGroup phone0 secondFragment) phone0 = []"
    and c: "arrived secondFragment phone0 = [1, 2]"
    and d: "dropped secondFragment phone0 = []"
    by (simp_all add: secondFragment_def addToMessageGroup_def processMessageGroup_def
          newChatHandler_def Let_def)
  have r2: "reachable (processMessageGroup phone0 secondFragment)"
    using secondFragment_reachable by (rule reachable.timer)
  show ?thesis
    using one_processing_run [OF secondFragment_reachable, of phone0]
      one_processing_run [OF r2, of phone0] a b t c d secondFragment_reachable
    by simp
qed

end
